theory Spec2Isabelle
  imports Complex_Main
begin

section \<open>Values of the program\<close>

text \<open>
  The exceptions that \<^verbatim>\<open>torch_landscape/directions.py\<close> raises itself
  (\<^verbatim>\<open>ValueError\<close>, \<^verbatim>\<open>AssertionError\<close>), and those raised by Python and
  by the tensor library under it on the paths modelled here.
\<close>

datatype error = ValueError | AssertionError | IndexError | RuntimeError | TypeError

text \<open>
  A Python \<^verbatim>\<open>float\<close>: a finite number, one of the two infinities, or not-a-number.
  Only the order comparison \<^verbatim>\<open><\<close> is used on it by the source; every comparison
  with not-a-number is false.
\<close>

datatype py_float = Fin real | PInf | NInf | NaN

fun float_lt :: "py_float \<Rightarrow> py_float \<Rightarrow> bool" where
  "float_lt NaN _ = False"
| "float_lt _ NaN = False"
| "float_lt _ NInf = False"
| "float_lt NInf _ = True"
| "float_lt PInf _ = False"
| "float_lt (Fin _) PInf = True"
| "float_lt (Fin x) (Fin y) = (x < y)"

text \<open>
  A tensor is its shape and its elements in row-major order, as a contiguous tensor is
  stored. The element type is a parameter: the builders only move elements around, and
  the arithmetic of the numeric backend is passed to them explicitly.
\<close>

record 'a tensor =
  shape :: "nat list"
  data :: "'a list"

definition numel :: "'a tensor \<Rightarrow> nat" where
  "numel t = prod_list (shape t)"

definition wf_tensor :: "'a tensor \<Rightarrow> bool" where
  "wf_tensor t = (length (data t) = prod_list (shape t))"

datatype device = Cpu | Cuda

text \<open>
  \<^verbatim>\<open>Union[List[List[Tensor]], List[Tuple[List[Tensor], float]]]\<close>: the trajectory is
  either a list of parameter sets or a list of pairs of a parameter set and its loss.
  \<^verbatim>\<open>isinstance(intermediate_parameters[0], tuple)\<close> holds for the second variant.
\<close>

datatype 'a trajectory =
  Plain "'a tensor list list"
| WithLoss "('a tensor list \<times> py_float) list"

fun traj_len :: "'a trajectory \<Rightarrow> nat" where
  "traj_len (Plain ps) = length ps"
| "traj_len (WithLoss ps) = length ps"

fun strip_loss :: "'a trajectory \<Rightarrow> 'a tensor list list" where
  "strip_loss (WithLoss ps) = map fst ps"
| "strip_loss (Plain ps) = ps"

section \<open>Construction of the builders\<close>

record 'a PcaDirections =
  pca_optimized_parameters :: "'a tensor list"
  pca_intermediate_parameters :: "'a tensor list list"
  pca_covariance_device :: device

definition PcaDirections_init ::
  "'a tensor list \<Rightarrow> 'a trajectory \<Rightarrow> device \<Rightarrow> error + 'a PcaDirections" where
  "PcaDirections_init optimized_parameters intermediate_parameters covariance_device =
     (if traj_len intermediate_parameters = 0 then Inl ValueError
      else Inr \<lparr>pca_optimized_parameters = optimized_parameters,
                pca_intermediate_parameters = strip_loss intermediate_parameters,
                pca_covariance_device = covariance_device\<rparr>)"

record 'a LearnableDirections =
  ld_optimized_parameters :: "'a tensor list"
  ld_intermediate_parameters :: "'a tensor list list"
  learnable_model_device :: device
  number_of_layers :: int
  autoencoder_lr :: py_float
  training_epochs :: int
  early_stopping_epochs :: int
  intermediate_basis_count :: "int list"
  activation :: "'a \<Rightarrow> 'a"

text \<open>
  \<^verbatim>\<open>LearnableDirections.__init__\<close> and \<^verbatim>\<open>LearnableNonlinearDirections.__init__\<close>
  have the same body, statement for statement.
\<close>

definition LearnableDirections_init ::
  "'a tensor list \<Rightarrow> 'a trajectory \<Rightarrow> device \<Rightarrow> int \<Rightarrow> py_float \<Rightarrow> int \<Rightarrow> int \<Rightarrow> int list
     \<Rightarrow> ('a \<Rightarrow> 'a) \<Rightarrow> error + 'a LearnableDirections" where
  "LearnableDirections_init optimized_parameters intermediate_parameters dev layers lr epochs
       patience basis_count act =
     (if traj_len intermediate_parameters = 0 then Inl ValueError
      else Inr \<lparr>ld_optimized_parameters = optimized_parameters,
                ld_intermediate_parameters = strip_loss intermediate_parameters,
                learnable_model_device = dev,
                number_of_layers = layers,
                autoencoder_lr = lr,
                training_epochs = epochs,
                early_stopping_epochs = patience,
                intermediate_basis_count = basis_count,
                activation = act\<rparr>)"

definition LearnableNonlinearDirections_init ::
  "'a tensor list \<Rightarrow> 'a trajectory \<Rightarrow> device \<Rightarrow> int \<Rightarrow> py_float \<Rightarrow> int \<Rightarrow> int \<Rightarrow> int list
     \<Rightarrow> ('a \<Rightarrow> 'a) \<Rightarrow> error + 'a LearnableDirections" where
  "LearnableNonlinearDirections_init optimized_parameters intermediate_parameters dev layers lr
       epochs patience basis_count act =
     (if traj_len intermediate_parameters = 0 then Inl ValueError
      else Inr \<lparr>ld_optimized_parameters = optimized_parameters,
                ld_intermediate_parameters = strip_loss intermediate_parameters,
                learnable_model_device = dev,
                number_of_layers = layers,
                autoencoder_lr = lr,
                training_epochs = epochs,
                early_stopping_epochs = patience,
                intermediate_basis_count = basis_count,
                activation = act\<rparr>)"

record 'a SvdDirections =
  svd_optimized_parameters :: "'a tensor list"
  svd_intermediate_parameters :: "'a tensor list list"

definition SvdDirections_init ::
  "'a tensor list \<Rightarrow> 'a trajectory \<Rightarrow> error + 'a SvdDirections" where
  "SvdDirections_init optimized_parameters intermediate_parameters =
     (if traj_len intermediate_parameters = 0 then Inl ValueError
      else Inr \<lparr>svd_optimized_parameters = optimized_parameters,
                svd_intermediate_parameters = strip_loss intermediate_parameters\<rparr>)"

section \<open>Tensor operations and their record\<close>

text \<open>
  A computation of the builders either raises or returns, and on the way it calls into the
  tensor library. The calls made so far are kept in order, so that "fails before any tensor
  computation" is a statement about the result: the list of operations is empty.
\<close>

datatype tensor_op =
  ParametersToVector | Subtract | ToDevice | Stack | Transpose | Reshape | CastFloat32
| Cov | Eigh | Lobpcg | Sort | Sum | SelectColumn | SvdLowrank
| NewTensor | KaimingUniform | NewOptimizer | TrainEpoch | LoadStateDict | VectorToParameters

type_synonym 'x comp = "tensor_op list \<times> (error + 'x)"

definition pure_c :: "'x \<Rightarrow> 'x comp" where
  "pure_c x = ([], Inr x)"

definition raise_c :: "error \<Rightarrow> 'x comp" where
  "raise_c e = ([], Inl e)"

definition call_c :: "tensor_op \<Rightarrow> error + 'x \<Rightarrow> 'x comp" where
  "call_c opn r = ([opn], r)"

definition bind_c :: "'x comp \<Rightarrow> ('x \<Rightarrow> 'y comp) \<Rightarrow> 'y comp" where
  "bind_c m f =
     (case snd m of
        Inl e \<Rightarrow> (fst m, Inl e)
      | Inr x \<Rightarrow> (fst m @ fst (f x), snd (f x)))"

fun mapM_c :: "('x \<Rightarrow> 'y comp) \<Rightarrow> 'x list \<Rightarrow> 'y list comp" where
  "mapM_c f [] = pure_c []"
| "mapM_c f (x # xs) = bind_c (f x) (\<lambda>y. bind_c (mapM_c f xs) (\<lambda>ys. pure_c (y # ys)))"

text \<open>
  \<^verbatim>\<open>torch.nn.utils.parameters_to_vector\<close>: every parameter is viewed as a vector and
  the vectors are concatenated; concatenating no tensor at all is an error of the library.
  A vector (a tensor of one dimension) is the list of its elements.
\<close>

definition parameters_to_vector :: "'a tensor list \<Rightarrow> error + 'a list" where
  "parameters_to_vector ps =
     (if ps = [] then Inl RuntimeError else Inr (concat (map data ps)))"

text \<open>
  \<^verbatim>\<open>torch.nn.utils.vector_to_parameters\<close>: consecutive slices of the vector are viewed
  in the shapes of the parameters, in order. A slice that runs past the end of the vector
  is shorter than its parameter and cannot be viewed in its shape; what is left of the
  vector after the last parameter is ignored.
\<close>

fun vector_to_parameters :: "'a list \<Rightarrow> 'a tensor list \<Rightarrow> error + 'a tensor list" where
  "vector_to_parameters vec [] = Inr []"
| "vector_to_parameters vec (p # ps) =
     (let num_param = numel p; piece = take num_param vec
      in if length piece \<noteq> num_param then Inl RuntimeError
         else (case vector_to_parameters (drop num_param vec) ps of
                 Inl e \<Rightarrow> Inl e
               | Inr rest \<Rightarrow> Inr (\<lparr>shape = shape p, data = piece\<rparr> # rest)))"

text \<open>
  The deep copy of \<^verbatim>\<open>torch_landscape.utils.clone_parameters\<close> has the shapes and the
  values of its argument.
\<close>

definition clone_parameters :: "'a tensor list \<Rightarrow> 'a tensor list" where
  "clone_parameters ps = ps"

text \<open>
  Subtraction of two vectors, with the library's broadcasting: equal lengths element by
  element, a vector of one element against each element of the other, an error otherwise.
\<close>

definition vector_sub :: "('a \<Rightarrow> 'a \<Rightarrow> 'a) \<Rightarrow> 'a list \<Rightarrow> 'a list \<Rightarrow> error + 'a list" where
  "vector_sub f a b =
     (if length a = length b then Inr (map2 f a b)
      else if length b = 1 then Inr (map (\<lambda>x. f x (hd b)) a)
      else if length a = 1 then Inr (map (\<lambda>y. f (hd a) y) b)
      else Inl RuntimeError)"

text \<open>
  \<^verbatim>\<open>torch.stack\<close> of vectors: they must be at least one and all of one length.
  Along dimension 0 the vectors are the rows of the result, along dimension 1 its columns.
\<close>

definition stack :: "'a list list \<Rightarrow> nat \<Rightarrow> error + 'a tensor" where
  "stack xs d =
     (if xs = [] then Inl RuntimeError
      else if list_ex (\<lambda>x. length x \<noteq> length (hd xs)) xs then Inl RuntimeError
      else if d = 0 then Inr \<lparr>shape = [length xs, length (hd xs)], data = concat xs\<rparr>
      else if d = 1 then
        Inr \<lparr>shape = [length (hd xs), length xs],
             data = concat (map (\<lambda>j. map (\<lambda>x. x ! j) xs) [0..<length (hd xs)])\<rparr>
      else Inl IndexError)"

text \<open>The transpose \<^verbatim>\<open>.T\<close> of a matrix.\<close>

definition transpose_matrix :: "'a tensor \<Rightarrow> error + 'a tensor" where
  "transpose_matrix m =
     (case shape m of
        [r, c] \<Rightarrow>
          Inr \<lparr>shape = [c, r],
               data = concat (map (\<lambda>j. map (\<lambda>i. data m ! (i * c + j)) [0..<r]) [0..<c])\<rparr>
      | _ \<Rightarrow> Inl RuntimeError)"

text \<open>\<^verbatim>\<open>m[:, j]\<close>: column \<open>j\<close> of a matrix.\<close>

definition select_column :: "'a tensor \<Rightarrow> nat \<Rightarrow> error + 'a list" where
  "select_column m j =
     (case shape m of
        [r, c] \<Rightarrow> if j < c then Inr (map (\<lambda>i. data m ! (i * c + j)) [0..<r]) else Inl IndexError
      | _ \<Rightarrow> Inl IndexError)"

text \<open>\<^verbatim>\<open>t.size(dim=d)\<close>.\<close>

definition size_dim :: "'a tensor \<Rightarrow> nat \<Rightarrow> error + nat" where
  "size_dim t d = (if d < length (shape t) then Inr (shape t ! d) else Inl IndexError)"

text \<open>
  \<^verbatim>\<open>xs[i]\<close> on a tuple or list: positions from the front for \<open>i \<ge> 0\<close>, from the back
  for \<open>i < 0\<close>, and \<^verbatim>\<open>IndexError\<close> outside.
\<close>

definition py_index :: "'x list \<Rightarrow> int \<Rightarrow> error + 'x" where
  "py_index xs i =
     (if 0 \<le> i \<and> i < int (length xs) then Inr (xs ! nat i)
      else if i < 0 \<and> - int (length xs) \<le> i then Inr (xs ! nat (int (length xs) + i))
      else Inl IndexError)"

text \<open>
  The numeric backend. The element type \<open>'a\<close> stands for the floating-point numbers of the
  tensors and \<open>'o\<close> for the state of the optimizer; the arithmetic, the eigensolvers, the
  randomized singular value decomposition, the random initialisation and one epoch of
  training are functions of the backend, so that every statement below holds for whatever
  they compute.
\<close>

record ('a, 'o) backend =
  torch_sub :: "'a \<Rightarrow> 'a \<Rightarrow> 'a"
  torch_float32 :: "'a \<Rightarrow> 'a"
  torch_cov_entry :: "'a list \<Rightarrow> 'a list \<Rightarrow> 'a"
  torch_eigh :: "'a tensor \<Rightarrow> error + ('a list \<times> 'a tensor)"
  torch_lobpcg :: "'a tensor \<Rightarrow> bool \<Rightarrow> nat \<Rightarrow> error + ('a list \<times> 'a tensor)"
  torch_svd_lowrank :: "'a tensor \<Rightarrow> nat \<Rightarrow> error + ('a tensor \<times> 'a list \<times> 'a tensor)"
  torch_kaiming_uniform :: "nat \<Rightarrow> nat list \<Rightarrow> 'a list"
  torch_adam :: "'a tensor list \<Rightarrow> py_float \<Rightarrow> 'o"
  torch_epoch_sum :: "'a tensor \<Rightarrow> 'a tensor list \<Rightarrow> 'o \<Rightarrow> py_float \<times> 'a tensor list \<times> 'o"
  torch_epoch_mean ::
    "'a list \<Rightarrow> 'a tensor \<Rightarrow> 'a tensor list \<Rightarrow> 'o \<Rightarrow> py_float \<times> 'a tensor list \<times> 'o"

section \<open>Normalization of a direction\<close>

text \<open>
  \<^verbatim>\<open>normalize_direction\<close> works on two tensors of numbers. Here the elements of its
  arguments are real numbers and the arithmetic is exact, except that a division by zero
  gives what floating point gives, an infinity or not-a-number, so that the result is a
  tensor of \<open>py_float\<close>. Rounding and overflow are not part of the model.

  The position of a multi-index in the row-major elements of a tensor of a given shape,
  and the multi-index of a position.
\<close>

fun ravel :: "nat list \<Rightarrow> nat list \<Rightarrow> nat" where
  "ravel (n # ns) (j # js) = j * prod_list ns + ravel ns js"
| "ravel _ _ = 0"

fun unravel :: "nat list \<Rightarrow> nat \<Rightarrow> nat list" where
  "unravel [] k = []"
| "unravel (n # ns) k = (k div prod_list ns) # unravel ns (k mod prod_list ns)"

text \<open>The 2-norm of a list of numbers, the default of \<^verbatim>\<open>Tensor.norm\<close>.\<close>

definition vector_norm :: "real list \<Rightarrow> real" where
  "vector_norm xs = sqrt (sum_list (map (\<lambda>x. x * x) xs))"

text \<open>
  \<^verbatim>\<open>t.norm(dim=d, keepdim=True)\<close>: the result has the shape of \<open>t\<close> with size \<open>1\<close> at
  dimension \<open>d\<close>, and its element at position \<open>k\<close> is the norm of the elements of \<open>t\<close>
  that differ from that position only in their index along \<open>d\<close>; \<open>fibre t d k\<close> lists
  them. A tensor of no dimension is its single element, and the library accepts \<open>d = 0\<close>
  for it; any other \<open>d\<close> outside the dimensions of \<open>t\<close> is an \<^verbatim>\<open>IndexError\<close>.
\<close>

definition fibre :: "'a tensor \<Rightarrow> nat \<Rightarrow> nat \<Rightarrow> 'a list" where
  "fibre t d k =
     (if shape t = [] then data t
      else map (\<lambda>j. data t ! ravel (shape t) ((unravel ((shape t)[d := 1]) k)[d := j]))
             [0..<shape t ! d])"

definition norm_keepdim :: "real tensor \<Rightarrow> nat \<Rightarrow> error + real tensor" where
  "norm_keepdim t d =
     (if d < length (shape t) \<or> (shape t = [] \<and> d = 0) then
        Inr \<lparr>shape = (shape t)[d := 1],
             data = map (\<lambda>k. vector_norm (fibre t d k)) [0..<prod_list ((shape t)[d := 1])]\<rparr>
      else Inl IndexError)"

text \<open>\<^verbatim>\<open>t + c\<close> for a number \<open>c\<close>.\<close>

definition add_scalar :: "real tensor \<Rightarrow> real \<Rightarrow> real tensor" where
  "add_scalar t c = \<lparr>shape = shape t, data = map (\<lambda>x. x + c) (data t)\<rparr>"

text \<open>
  Broadcasting of the library: the shapes are aligned at their last dimension, and two
  sizes go together when they are equal or one of them is \<open>1\<close>; a dimension that one
  shape lacks is taken from the other. An operand is read at index \<open>0\<close> along every
  dimension where its size is \<open>1\<close>. Shapes that do not go together are a
  \<^verbatim>\<open>RuntimeError\<close>.
\<close>

fun broadcast_rev :: "nat list \<Rightarrow> nat list \<Rightarrow> nat list option" where
  "broadcast_rev [] ys = Some ys"
| "broadcast_rev (x # xs) [] = Some (x # xs)"
| "broadcast_rev (x # xs) (y # ys) =
     (if x = y \<or> y = 1 then map_option ((#) x) (broadcast_rev xs ys)
      else if x = 1 then map_option ((#) y) (broadcast_rev xs ys)
      else None)"

definition broadcast_shapes :: "nat list \<Rightarrow> nat list \<Rightarrow> nat list option" where
  "broadcast_shapes a b = map_option rev (broadcast_rev (rev a) (rev b))"

definition broadcast_index :: "nat list \<Rightarrow> nat list \<Rightarrow> nat \<Rightarrow> nat" where
  "broadcast_index sh res k =
     ravel sh (map2 (\<lambda>n i. if n = 1 then 0 else i) sh
                 (drop (length res - length sh) (unravel res k)))"

definition broadcast_op ::
  "('a \<Rightarrow> 'b \<Rightarrow> 'c) \<Rightarrow> 'a tensor \<Rightarrow> 'b tensor \<Rightarrow> error + 'c tensor" where
  "broadcast_op f a b =
     (case broadcast_shapes (shape a) (shape b) of
        None \<Rightarrow> Inl RuntimeError
      | Some sh \<Rightarrow>
          Inr \<lparr>shape = sh,
               data = map (\<lambda>k. f (data a ! broadcast_index (shape a) sh k)
                                  (data b ! broadcast_index (shape b) sh k))
                        [0..<prod_list sh]\<rparr>)"

text \<open>
  Division and multiplication of floating-point numbers, as far as the results can leave
  the real numbers: a division by zero gives an infinity with the sign of the numerator,
  or not-a-number for \<open>0 / 0\<close>; a product with an infinity is an infinity, or
  not-a-number when the other factor is \<open>0\<close>.
\<close>

definition float_div :: "real \<Rightarrow> real \<Rightarrow> py_float" where
  "float_div x y =
     (if y \<noteq> 0 then Fin (x / y)
      else if 0 < x then PInf else if x < 0 then NInf else NaN)"

definition float_mul :: "real \<Rightarrow> py_float \<Rightarrow> py_float" where
  "float_mul x c =
     (case c of
        Fin y \<Rightarrow> Fin (x * y)
      | PInf \<Rightarrow> (if 0 < x then PInf else if x < 0 then NInf else NaN)
      | NInf \<Rightarrow> (if 0 < x then NInf else if x < 0 then PInf else NaN)
      | NaN \<Rightarrow> NaN)"

text \<open>
  \<^verbatim>\<open>a *= b\<close>: the product is written into \<open>a\<close>, so the broadcast shape has to be the
  shape of \<open>a\<close>. The result is the new value of \<open>a\<close>.
\<close>

definition imul :: "real tensor \<Rightarrow> py_float tensor \<Rightarrow> error + py_float tensor" where
  "imul a b =
     (if broadcast_shapes (shape a) (shape b) = Some (shape a) then broadcast_op float_mul a b
      else Inl RuntimeError)"

text \<open>A tensor of real numbers as a tensor of floating-point numbers, all of them finite.\<close>

definition finite_tensor :: "real tensor \<Rightarrow> py_float tensor" where
  "finite_tensor t = \<lparr>shape = shape t, data = map Fin (data t)\<rparr>"

text \<open>
  \<^verbatim>\<open>normalize_direction(direction, parameters)\<close>. The function returns nothing and
  changes \<open>direction\<close> in place: the result here is the value of \<open>direction\<close> after the
  call, or the exception.
\<close>

definition norm_dimensions :: "'a tensor \<Rightarrow> nat" where
  "norm_dimensions parameters = (if length (shape parameters) > 1 then 1 else 0)"

definition normalize_direction ::
  "real tensor \<Rightarrow> real tensor \<Rightarrow> error + py_float tensor" where
  "normalize_direction direction parameters =
     (case norm_keepdim direction (norm_dimensions parameters) of
        Inl e \<Rightarrow> Inl e
      | Inr norm_direction \<Rightarrow>
     (case norm_keepdim parameters (norm_dimensions parameters) of
        Inl e \<Rightarrow> Inl e
      | Inr norm_parameters \<Rightarrow>
     (case broadcast_op float_div norm_parameters (add_scalar norm_direction (1 / 10 ^ 10)) of
        Inl e \<Rightarrow> Inl e
      | Inr scaling_factor \<Rightarrow> imul direction scaling_factor)))"

section \<open>The training loop of the learnable directions\<close>

text \<open>
  The variables of the loop: the parameters of the autoencoder and the state of its
  optimizer, \<^verbatim>\<open>best_epoch\<close>, \<^verbatim>\<open>best_loss\<close> and \<^verbatim>\<open>best_model_state_dict\<close>
  (\<open>None\<close> until a loss improves on the best one). \<open>history\<close> is not a variable of the
  source: it lists the epochs that ran, each with its \<^verbatim>\<open>epoch_loss\<close> and the state
  dictionary of the model after the optimizer's step of that epoch, and serves to state
  what the loop did.
\<close>

record ('a, 'o) train_state =
  weights :: "'a tensor list"
  optimizer :: 'o
  best_epoch :: int
  best_loss :: py_float
  best_model_state_dict :: "'a tensor list option"
  history :: "(int \<times> py_float \<times> 'a tensor list) list"

definition initial_train_state :: "'a tensor list \<Rightarrow> 'o \<Rightarrow> ('a, 'o) train_state" where
  "initial_train_state w opt =
     \<lparr>weights = w, optimizer = opt, best_epoch = 0, best_loss = PInf,
      best_model_state_dict = None, history = []\<rparr>"

text \<open>
  One pass of the body of \<^verbatim>\<open>for epoch in pbar\<close>, up to the test for early stopping.
  \<open>epoch_step\<close> is \<^verbatim>\<open>optimizer.zero_grad()\<close> through \<^verbatim>\<open>loss.item()\<close>: it returns the loss
  of the forward pass and the parameters and optimizer state after
  \<^verbatim>\<open>optimizer.step()\<close>. \<^verbatim>\<open>epoch_loss\<close> starts at \<open>0\<close> and the loss is added once, which
  changes neither its value nor the outcome of a comparison.
\<close>

definition train_epoch ::
  "('a tensor list \<Rightarrow> 'o \<Rightarrow> py_float \<times> 'a tensor list \<times> 'o) \<Rightarrow> int \<Rightarrow> ('a, 'o) train_state
     \<Rightarrow> ('a, 'o) train_state" where
  "train_epoch epoch_step epoch s =
     (case epoch_step (weights s) (optimizer s) of
        (epoch_loss, w, opt) \<Rightarrow>
          (let s1 = s\<lparr>weights := w, optimizer := opt,
                      history := history s @ [(epoch, epoch_loss, w)]\<rparr>
           in if float_lt epoch_loss (best_loss s1)
              then s1\<lparr>best_epoch := epoch, best_loss := epoch_loss,
                      best_model_state_dict := Some w\<rparr>
              else s1))"

fun train_loop ::
  "('a tensor list \<Rightarrow> 'o \<Rightarrow> py_float \<times> 'a tensor list \<times> 'o) \<Rightarrow> int \<Rightarrow> int list
     \<Rightarrow> ('a, 'o) train_state \<Rightarrow> ('a, 'o) train_state" where
  "train_loop epoch_step patience [] s = s"
| "train_loop epoch_step patience (epoch # rest) s =
     (let s' = train_epoch epoch_step epoch s
      in if epoch - best_epoch s' \<ge> patience then s'
         else train_loop epoch_step patience rest s')"

text \<open>\<^verbatim>\<open>range(training_epochs)\<close>.\<close>

definition py_range :: "int \<Rightarrow> int list" where
  "py_range n = map int [0..<nat n]"

text \<open>
  \<^verbatim>\<open>model.load_state_dict(best_model_state_dict)\<close> followed by reading the parameters of
  the model: a dictionary gives its parameters, \<open>None\<close> is refused by the library.
\<close>

definition load_state_dict :: "'a tensor list option \<Rightarrow> error + 'a tensor list" where
  "load_state_dict d = (case d of None \<Rightarrow> Inl TypeError | Some w \<Rightarrow> Inr w)"



section \<open>The learnable directions\<close>

text \<open>\<^verbatim>\<open>Tensor(in_channels, out_channels)\<close>: a new tensor of the given sizes.\<close>

definition new_tensor :: "int list \<Rightarrow> error + nat list" where
  "new_tensor dims = (if list_ex (\<lambda>d. d < 0) dims then Inl RuntimeError else Inr (map nat dims))"

definition index_c :: "'x list \<Rightarrow> int \<Rightarrow> 'x comp" where
  "index_c xs i = (case py_index xs i of Inl e \<Rightarrow> raise_c e | Inr x \<Rightarrow> pure_c x)"

text \<open>
  The sizes of layer \<open>i\<close> in \<^verbatim>\<open>LearnableAutoEncoder.__init__\<close> of
  \<^verbatim>\<open>LearnableDirections.create_learnable_directions\<close>.
\<close>

definition linear_layer_dims :: "int \<Rightarrow> int list \<Rightarrow> int \<Rightarrow> int \<Rightarrow> (int \<times> int) comp" where
  "linear_layer_dims layers basis_count feature_dim i =
     (if i = 0 then bind_c (index_c basis_count i) (\<lambda>a. pure_c (a, feature_dim))
      else if i = layers - 1 then bind_c (index_c basis_count (i - 1)) (\<lambda>a. pure_c (2, a))
      else bind_c (index_c basis_count i) (\<lambda>a.
           bind_c (index_c basis_count (i - 1)) (\<lambda>b. pure_c (a, b))))"

definition reset_parameters :: "('a, 'o) backend \<Rightarrow> nat list list \<Rightarrow> 'a tensor list comp" where
  "reset_parameters B shapes =
     mapM_c (\<lambda>(k, sh). call_c KaimingUniform
                (Inr \<lparr>shape = sh, data = torch_kaiming_uniform B k sh\<rparr>))
       (enumerate 0 shapes)"

text \<open>
  \<^verbatim>\<open>LearnableAutoEncoder.__init__\<close> of the linear chain: the assertion on the number of
  intermediate basis counts is its first statement after the call of the superclass.
\<close>

definition LinearAutoEncoder_init ::
  "('a, 'o) backend \<Rightarrow> int \<Rightarrow> int list \<Rightarrow> int \<Rightarrow> 'a tensor list comp" where
  "LinearAutoEncoder_init B feature_dim basis_count layers =
     (if int (length basis_count) \<noteq> layers - 1 then raise_c AssertionError
      else bind_c (mapM_c (\<lambda>i. bind_c (linear_layer_dims layers basis_count feature_dim i)
                                 (\<lambda>(a, b). call_c NewTensor (new_tensor [a, b])))
                     (py_range layers))
             (reset_parameters B))"

text \<open>
  The loop with its record: one \<open>TrainEpoch\<close> for every epoch that ran.
\<close>

definition train_c ::
  "('a tensor list \<Rightarrow> 'o \<Rightarrow> py_float \<times> 'a tensor list \<times> 'o) \<Rightarrow> int \<Rightarrow> int
     \<Rightarrow> 'a tensor list \<Rightarrow> 'o \<Rightarrow> ('a, 'o) train_state comp" where
  "train_c epoch_step patience epochs w opt =
     (let s = train_loop epoch_step patience (py_range epochs) (initial_train_state w opt)
      in (replicate (length (history s)) TrainEpoch, Inr s))"

text \<open>\<^verbatim>\<open>LearnableDirections.create_learnable_directions\<close>.\<close>

definition Linear_create_learnable_directions ::
  "('a, 'o) backend \<Rightarrow> 'a tensor list list \<Rightarrow> 'a tensor list \<Rightarrow> device \<Rightarrow> int \<Rightarrow> int
     \<Rightarrow> py_float \<Rightarrow> int \<Rightarrow> int list \<Rightarrow> 'a tensor list comp" where
  "Linear_create_learnable_directions B intermediate_results parameters dev patience epochs lr
       layers basis_count =
     (if length intermediate_results = 0 then raise_c ValueError
      else
        bind_c (call_c ParametersToVector (parameters_to_vector parameters)) (\<lambda>opv.
        bind_c (mapM_c (\<lambda>result.
                  bind_c (call_c ParametersToVector (parameters_to_vector result)) (\<lambda>v.
                  bind_c (call_c Subtract (vector_sub (torch_sub B) v opv)) (\<lambda>d.
                  call_c ToDevice (Inr d))))
                intermediate_results) (\<lambda>x.
        bind_c (call_c Stack (stack x 0)) (\<lambda>dataset.
        bind_c (index_c x 0) (\<lambda>x0.
        bind_c (LinearAutoEncoder_init B (int (length x0)) basis_count layers) (\<lambda>w.
        bind_c (call_c ToDevice (Inr w)) (\<lambda>w.
        bind_c (call_c NewOptimizer (Inr (torch_adam B w lr))) (\<lambda>opt.
        bind_c (train_c (torch_epoch_sum B dataset) patience epochs w opt) (\<lambda>s.
        call_c LoadStateDict (load_state_dict (best_model_state_dict s)))))))))))"

text \<open>
  The layers of \<^verbatim>\<open>LearnableAutoEncoder.__init__\<close> of the nonlinear chain: the output
  size of a layer is the input size of the next.
\<close>

fun nonlinear_layers :: "int \<Rightarrow> int list \<Rightarrow> int \<Rightarrow> int list \<Rightarrow> nat list list comp" where
  "nonlinear_layers layers basis_count in_dimension [] = pure_c []"
| "nonlinear_layers layers basis_count in_dimension (i # rest) =
     bind_c (if i = layers - 1 then pure_c 2 else index_c basis_count i) (\<lambda>out_dimension.
     bind_c (call_c NewTensor (new_tensor [in_dimension, out_dimension])) (\<lambda>sh.
     bind_c (nonlinear_layers layers basis_count out_dimension rest) (\<lambda>shs.
     pure_c (sh # shs))))"

definition NonlinearAutoEncoder_init ::
  "('a, 'o) backend \<Rightarrow> int \<Rightarrow> int list \<Rightarrow> int \<Rightarrow> 'a tensor list comp" where
  "NonlinearAutoEncoder_init B feature_dim basis_count layers =
     bind_c (nonlinear_layers layers basis_count feature_dim (py_range layers))
       (reset_parameters B)"

text \<open>
  The subspace that the nonlinear builder returns: its chain of weight matrices, and the
  vector of the optimized parameters held by the first layer as origin.
\<close>

record 'a subspace =
  space_weights :: "'a tensor list"
  space_origin :: "'a list"

text \<open>\<^verbatim>\<open>LearnableNonlinearDirections.create_learnable_directions\<close>.\<close>

definition Nonlinear_create_learnable_directions ::
  "('a, 'o) backend \<Rightarrow> 'a tensor list list \<Rightarrow> 'a tensor list \<Rightarrow> device \<Rightarrow> int \<Rightarrow> int
     \<Rightarrow> py_float \<Rightarrow> int \<Rightarrow> int list \<Rightarrow> 'a subspace comp" where
  "Nonlinear_create_learnable_directions B intermediate_results parameters dev patience epochs
       lr layers basis_count =
     (if length intermediate_results = 0 then raise_c ValueError
      else if \<not> int (length basis_count) = layers - 1 then raise_c ValueError
      else
        bind_c (call_c ParametersToVector (parameters_to_vector parameters)) (\<lambda>opv.
        bind_c (call_c Reshape (Inr opv)) (\<lambda>opv.
        bind_c (mapM_c (\<lambda>result.
                  bind_c (call_c ParametersToVector (parameters_to_vector result)) (\<lambda>v.
                  call_c ToDevice (Inr v)))
                intermediate_results) (\<lambda>x.
        bind_c (call_c Stack (stack x 0)) (\<lambda>stacked.
        bind_c (call_c Transpose (transpose_matrix stacked)) (\<lambda>dataset.
        bind_c (case size_dim dataset 0 of Inl e \<Rightarrow> raise_c e | Inr n \<Rightarrow> pure_c (int n))
          (\<lambda>feature_dim.
        bind_c (NonlinearAutoEncoder_init B feature_dim basis_count layers) (\<lambda>w.
        bind_c (call_c ToDevice (Inr w)) (\<lambda>w.
        bind_c (call_c NewOptimizer (Inr (torch_adam B w lr))) (\<lambda>opt.
        bind_c (train_c (torch_epoch_mean B opv dataset) patience epochs w opt) (\<lambda>s.
        bind_c (call_c LoadStateDict (load_state_dict (best_model_state_dict s))) (\<lambda>w'.
        pure_c \<lparr>space_weights = w', space_origin = opv\<rparr>))))))))))))"



text \<open>
  \<^verbatim>\<open>calculate_directions\<close> of the two learnable builders: the fields of the builder are
  passed on, the activation is not.
\<close>

definition Linear_calculate_directions ::
  "('a, 'o) backend \<Rightarrow> 'a LearnableDirections \<Rightarrow> 'a tensor list comp" where
  "Linear_calculate_directions B self =
     Linear_create_learnable_directions B (ld_intermediate_parameters self)
       (ld_optimized_parameters self) (learnable_model_device self)
       (early_stopping_epochs self) (training_epochs self) (autoencoder_lr self)
       (number_of_layers self) (intermediate_basis_count self)"

definition Nonlinear_calculate_directions ::
  "('a, 'o) backend \<Rightarrow> 'a LearnableDirections \<Rightarrow> 'a subspace comp" where
  "Nonlinear_calculate_directions B self =
     Nonlinear_create_learnable_directions B (ld_intermediate_parameters self)
       (ld_optimized_parameters self) (learnable_model_device self)
       (early_stopping_epochs self) (training_epochs self) (autoencoder_lr self)
       (number_of_layers self) (intermediate_basis_count self)"

section \<open>The directions from principal components\<close>

text \<open>
  \<^verbatim>\<open>torch.cov\<close>: the rows of its argument are the variables and the columns the
  observations; a tensor of fewer than two dimensions is one variable. The result has one
  row and one column for every variable, with the dimensions of size one removed at the
  end (so a single variable gives a tensor of no dimension). The entry for two variables is
  computed by the backend from their two rows of observations.
\<close>

definition matrix_rows :: "'a tensor \<Rightarrow> 'a list list" where
  "matrix_rows m =
     (case shape m of
        [r, c] \<Rightarrow> map (\<lambda>i. take c (drop (i * c) (data m))) [0..<r]
      | _ \<Rightarrow> [data m])"

definition squeeze :: "'a tensor \<Rightarrow> 'a tensor" where
  "squeeze t = t\<lparr>shape := filter (\<lambda>d. d \<noteq> 1) (shape t)\<rparr>"

definition cov :: "('a, 'o) backend \<Rightarrow> 'a tensor \<Rightarrow> error + 'a tensor" where
  "cov B m =
     (if length (shape m) > 2 then Inl RuntimeError
      else Inr (squeeze
             \<lparr>shape = [length (matrix_rows m), length (matrix_rows m)],
              data = concat (map (\<lambda>v. map (torch_cov_entry B v) (matrix_rows m))
                               (matrix_rows m))\<rparr>))"

text \<open>\<^verbatim>\<open>PcaDirections.calculate_covariance_matrix\<close>.\<close>

definition calculate_covariance_matrix ::
  "('a, 'o) backend \<Rightarrow> 'a list list \<Rightarrow> 'a tensor comp" where
  "calculate_covariance_matrix B samples =
     bind_c (call_c Stack (stack samples 1)) (\<lambda>m. call_c Cov (cov B m))"

text \<open>\<^verbatim>\<open>PcaDirections._calculate_eigenpairs\<close>.\<close>

definition calculate_eigenpairs ::
  "('a, 'o) backend \<Rightarrow> 'a tensor \<Rightarrow> ('a list \<times> 'a tensor) comp" where
  "calculate_eigenpairs B covariance_matrix =
     (case size_dim covariance_matrix 0 of
        Inl e \<Rightarrow> raise_c e
      | Inr n \<Rightarrow>
          if n > 3 * 2 then call_c Lobpcg (torch_lobpcg B covariance_matrix True 2)
          else call_c Eigh (torch_eigh B covariance_matrix))"

text \<open>
  \<^verbatim>\<open>torch.sort(values, descending=True)\<close>: the sorted values and, for each of them, its
  position in the argument. Among equal values the library fixes no order; here the later
  position comes first. The element type is ordered linearly, which leaves not-a-number
  out.
\<close>

definition sort_descending :: "'a::linorder list \<Rightarrow> 'a list \<times> nat list" where
  "sort_descending vals =
     (let indices = rev (sort_key (\<lambda>i. vals ! i) [0..<length vals])
      in (map (\<lambda>i. vals ! i) indices, indices))"

text \<open>
  \<^verbatim>\<open>PcaDirections.create_pca_directions\<close>. The two logging statements read
  \<^verbatim>\<open>indices[0]\<close> and \<^verbatim>\<open>indices[1]\<close> before the directions are selected.
\<close>

definition create_pca_directions ::
  "('a::linorder, 'o) backend \<Rightarrow> 'a tensor list list \<Rightarrow> 'a tensor list \<Rightarrow> device
     \<Rightarrow> ('a list \<times> 'a list) comp" where
  "create_pca_directions B intermediate_results parameters pca_device =
     (if length intermediate_results = 0 then raise_c ValueError
      else
        bind_c (call_c ParametersToVector (parameters_to_vector parameters)) (\<lambda>pv.
        bind_c (mapM_c (\<lambda>result.
                  bind_c (call_c ParametersToVector (parameters_to_vector result)) (\<lambda>v.
                  bind_c (call_c Subtract (vector_sub (torch_sub B) v pv)) (\<lambda>d.
                  call_c ToDevice (Inr d))))
                intermediate_results) (\<lambda>results.
        bind_c (calculate_covariance_matrix B results) (\<lambda>covariance_matrix.
        bind_c (calculate_eigenpairs B covariance_matrix) (\<lambda>(eigen_values, eigen_vectors).
        bind_c (call_c Sort (Inr (snd (sort_descending eigen_values)))) (\<lambda>indices.
        bind_c (call_c Sum (Inr ())) (\<lambda>_.
        bind_c (index_c indices 0) (\<lambda>i0.
        bind_c (index_c indices 1) (\<lambda>i1.
        bind_c (index_c parameters 0) (\<lambda>_.
        bind_c (call_c SelectColumn (select_column eigen_vectors i0)) (\<lambda>b1.
        bind_c (call_c SelectColumn (select_column eigen_vectors i1)) (\<lambda>b2.
        pure_c (b1, b2)))))))))))))"

text \<open>\<^verbatim>\<open>PcaDirections.calculate_directions\<close>.\<close>

definition Pca_calculate_directions ::
  "('a::linorder, 'o) backend \<Rightarrow> 'a PcaDirections \<Rightarrow> ('a tensor list \<times> 'a tensor list) comp"
  where
  "Pca_calculate_directions B self =
     bind_c (create_pca_directions B (pca_intermediate_parameters self)
               (pca_optimized_parameters self) (pca_covariance_device self)) (\<lambda>(b1, b2).
     bind_c (call_c VectorToParameters
               (vector_to_parameters b1 (clone_parameters (pca_optimized_parameters self))))
       (\<lambda>b1_param.
     bind_c (call_c VectorToParameters
               (vector_to_parameters b2 (clone_parameters (pca_optimized_parameters self))))
       (\<lambda>b2_param.
     pure_c (b1_param, b2_param))))"

section \<open>The directions from the singular value decomposition\<close>

text \<open>\<^verbatim>\<open>SvdDirections.create_learnable_directions\<close>.\<close>

definition Svd_create_learnable_directions ::
  "('a, 'o) backend \<Rightarrow> 'a tensor list list \<Rightarrow> 'a tensor list \<Rightarrow> ('a list \<times> 'a list) comp" where
  "Svd_create_learnable_directions B intermediate_results parameters =
     (if length intermediate_results = 0 then raise_c ValueError
      else
        bind_c (call_c ParametersToVector (parameters_to_vector parameters)) (\<lambda>opv.
        bind_c (mapM_c (\<lambda>result.
                  bind_c (call_c ParametersToVector (parameters_to_vector result)) (\<lambda>v.
                  call_c Subtract (vector_sub (torch_sub B) v opv)))
                intermediate_results) (\<lambda>x.
        bind_c (call_c Stack (stack x 0)) (\<lambda>stacked.
        bind_c (call_c CastFloat32
                  (Inr (stacked\<lparr>data := map (torch_float32 B) (data stacked)\<rparr>))) (\<lambda>dataset.
        bind_c (call_c SvdLowrank (torch_svd_lowrank B dataset 2)) (\<lambda>(U, S, V).
        bind_c (call_c SelectColumn (select_column V 0)) (\<lambda>b1.
        bind_c (call_c SelectColumn (select_column V 1)) (\<lambda>b2.
        pure_c (b1, b2)))))))))"

text \<open>\<^verbatim>\<open>SvdDirections.calculate_directions\<close>.\<close>

definition Svd_calculate_directions ::
  "('a, 'o) backend \<Rightarrow> 'a SvdDirections \<Rightarrow> ('a tensor list \<times> 'a tensor list) comp" where
  "Svd_calculate_directions B self =
     bind_c (Svd_create_learnable_directions B (svd_intermediate_parameters self)
               (svd_optimized_parameters self)) (\<lambda>(b1, b2).
     bind_c (call_c VectorToParameters
               (vector_to_parameters b1 (clone_parameters (svd_optimized_parameters self))))
       (\<lambda>b1_param.
     bind_c (call_c VectorToParameters
               (vector_to_parameters b2 (clone_parameters (svd_optimized_parameters self))))
       (\<lambda>b2_param.
     pure_c (b1_param, b2_param))))"

section \<open>A builder from construction to its directions\<close>

text \<open>
  Constructing a builder on a trajectory and asking it for its directions, for each of the
  four builders that take a trajectory.
\<close>

definition Pca_directions ::
  "('a::linorder, 'o) backend \<Rightarrow> 'a tensor list \<Rightarrow> 'a trajectory \<Rightarrow> device
     \<Rightarrow> ('a tensor list \<times> 'a tensor list) comp" where
  "Pca_directions B opt traj dev =
     (case PcaDirections_init opt traj dev of
        Inl e \<Rightarrow> raise_c e
      | Inr self \<Rightarrow> Pca_calculate_directions B self)"

definition Svd_directions ::
  "('a, 'o) backend \<Rightarrow> 'a tensor list \<Rightarrow> 'a trajectory
     \<Rightarrow> ('a tensor list \<times> 'a tensor list) comp" where
  "Svd_directions B opt traj =
     (case SvdDirections_init opt traj of
        Inl e \<Rightarrow> raise_c e
      | Inr self \<Rightarrow> Svd_calculate_directions B self)"

definition Linear_directions ::
  "('a, 'o) backend \<Rightarrow> 'a tensor list \<Rightarrow> 'a trajectory \<Rightarrow> device \<Rightarrow> int \<Rightarrow> py_float \<Rightarrow> int
     \<Rightarrow> int \<Rightarrow> int list \<Rightarrow> ('a \<Rightarrow> 'a) \<Rightarrow> 'a tensor list comp" where
  "Linear_directions B opt traj dev layers lr epochs patience basis_count act =
     (case LearnableDirections_init opt traj dev layers lr epochs patience basis_count act of
        Inl e \<Rightarrow> raise_c e
      | Inr self \<Rightarrow> Linear_calculate_directions B self)"

definition Nonlinear_directions ::
  "('a, 'o) backend \<Rightarrow> 'a tensor list \<Rightarrow> 'a trajectory \<Rightarrow> device \<Rightarrow> int \<Rightarrow> py_float \<Rightarrow> int
     \<Rightarrow> int \<Rightarrow> int list \<Rightarrow> ('a \<Rightarrow> 'a) \<Rightarrow> 'a subspace comp" where
  "Nonlinear_directions B opt traj dev layers lr epochs patience basis_count act =
     (case LearnableNonlinearDirections_init opt traj dev layers lr epochs patience basis_count
             act of
        Inl e \<Rightarrow> raise_c e
      | Inr self \<Rightarrow> Nonlinear_calculate_directions B self)"

text \<open>
  What the loop keeps true about its checkpoint: while no loss has improved on the initial
  best loss there is no checkpoint and the best loss is still infinite; afterwards the
  checkpoint, its epoch and its loss are one entry of the history, that loss is below
  infinity, and no loss of the history is below it.
\<close>

definition ckpt_inv :: "('a, 'o) train_state \<Rightarrow> bool" where
  "ckpt_inv s =
     ((case best_model_state_dict s of
         None \<Rightarrow> best_loss s = PInf
       | Some w \<Rightarrow> (best_epoch s, best_loss s, w) \<in> set (history s)
                   \<and> float_lt (best_loss s) PInf)
      \<and> list_all (\<lambda>(e, l, w). \<not> float_lt l (best_loss s)) (history s))"

text \<open>
  A training epoch for the examples: the optimizer state counts the epochs, the loss of
  epoch \<open>k\<close> is read from a list, and the parameters after the step of epoch \<open>k\<close> are the
  single number \<open>k + 1\<close>.
\<close>

definition example_step ::
  "py_float list \<Rightarrow> real tensor list \<Rightarrow> nat \<Rightarrow> py_float \<times> real tensor list \<times> nat" where
  "example_step losses w k =
     ((if k < length losses then losses ! k else NaN),
      [\<lparr>shape = [1], data = [real (Suc k)]\<rparr>], Suc k)"

section \<open>A backend for the examples\<close>

text \<open>
  Exact arithmetic on the reals stands in for floating point: subtraction, the identity as
  the cast to single precision, and the unbiased sample covariance. The eigensolvers and
  the singular value decomposition of this backend are exact only on the inputs of the
  examples: on a diagonal matrix with ascending diagonal, \<open>torch_eigh\<close> returns the
  diagonal and the unit vectors, and \<open>torch_lobpcg\<close> the \<open>k\<close> last of them, largest first;
  \<open>torch_svd_lowrank\<close> returns the first \<open>q\<close> unit vectors as right-singular vectors
  (its other two results are not read by the builder).
\<close>

definition sample_covariance :: "real list \<Rightarrow> real list \<Rightarrow> real" where
  "sample_covariance xs ys =
     (let mx = sum_list xs / real (length xs); my = sum_list ys / real (length ys)
      in sum_list (map2 (\<lambda>x y. (x - mx) * (y - my)) xs ys) / (real (length xs) - 1))"

definition unit_columns :: "nat \<Rightarrow> nat list \<Rightarrow> real tensor" where
  "unit_columns n js =
     \<lparr>shape = [n, length js],
      data = concat (map (\<lambda>i. map (\<lambda>j. if i = j then 1 else 0) js) [0..<n])\<rparr>"

definition diagonal :: "real tensor \<Rightarrow> real list" where
  "diagonal m = (case shape m of [r, c] \<Rightarrow> map (\<lambda>i. data m ! (i * c + i)) [0..<r] | _ \<Rightarrow> [])"

definition example_backend :: "(real, nat) backend" where
  "example_backend =
     \<lparr>torch_sub = (\<lambda>x y. x - y),
      torch_float32 = (\<lambda>x. x),
      torch_cov_entry = sample_covariance,
      torch_eigh = (\<lambda>m. Inr (diagonal m, unit_columns (length (diagonal m))
                                            [0..<length (diagonal m)])),
      torch_lobpcg = (\<lambda>m largest k.
         Inr (take k (rev (diagonal m)),
              unit_columns (length (diagonal m)) (take k (rev [0..<length (diagonal m)])))),
      torch_svd_lowrank = (\<lambda>m q.
         Inr (\<lparr>shape = [hd (shape m), q], data = map (\<lambda>i. 0) [0..<hd (shape m) * q]\<rparr>,
              map (\<lambda>i. 0) [0..<q],
              unit_columns (shape m ! 1) [0..<q])),
      torch_kaiming_uniform = (\<lambda>k sh. map (\<lambda>i. 0) [0..<prod_list sh]),
      torch_adam = (\<lambda>w lr. 0),
      torch_epoch_sum = (\<lambda>dataset. example_step [Fin 2, Fin 1, Fin 3]),
      torch_epoch_mean = (\<lambda>origin dataset. example_step [Fin 2, Fin 1, Fin 3])\<rparr>"

section \<open>Empty trajectories\<close>

lemma traj_len_0_iff:
  "traj_len t = 0 \<longleftrightarrow> t = Plain [] \<or> t = WithLoss []"
  by (cases t) auto

text \<open>
  C7. Each of the four builders that take a trajectory (\<^verbatim>\<open>PcaDirections\<close>,
  \<^verbatim>\<open>SvdDirections\<close>, \<^verbatim>\<open>LearnableDirections\<close>, \<^verbatim>\<open>LearnableNonlinearDirections\<close>)
  answers an empty trajectory, of either variant, with \<^verbatim>\<open>ValueError\<close> from its
  constructor: no builder object exists afterwards, so no tensor operation of the builder
  runs, and the constructor itself performs none before the test (it only stores the
  reference to the optimized parameters). Nothing catches the exception: it is the
  constructor's result.
\<close>

theorem empty_trajectory_rejected:
  "traj_len t = 0 \<longleftrightarrow>
     (PcaDirections_init opt t dev = Inl ValueError
      \<and> SvdDirections_init opt t = Inl ValueError
      \<and> LearnableDirections_init opt t dev layers lr epochs patience basis act = Inl ValueError
      \<and> LearnableNonlinearDirections_init opt t dev layers lr epochs patience basis act
          = Inl ValueError)"
  by (simp add: PcaDirections_init_def SvdDirections_init_def LearnableDirections_init_def
      LearnableNonlinearDirections_init_def)

theorem empty_trajectory_rejected_witness:
  "PcaDirections_init [] (Plain ([] :: real tensor list list)) Cpu = Inl ValueError
   \<and> SvdDirections_init [] (WithLoss ([] :: (real tensor list \<times> py_float) list))
       = Inl ValueError"
  using empty_trajectory_rejected [of "Plain ([] :: real tensor list list)" "[]" Cpu]
    empty_trajectory_rejected [of "WithLoss ([] :: (real tensor list \<times> py_float) list)" "[]"]
  by simp


section \<open>Early stopping and the best checkpoint\<close>






lemma float_lt_trans: "float_lt a b \<Longrightarrow> float_lt b c \<Longrightarrow> float_lt a c"
  by (cases a; cases b; cases c) auto

lemma float_lt_irrefl: "\<not> float_lt a a"
  by (cases a) auto

lemma float_lt_PInf: "float_lt a b \<Longrightarrow> float_lt a PInf"
  by (cases a; cases b) auto

lemma ckpt_inv_initial: "ckpt_inv (initial_train_state w opt)"
  by (simp add: ckpt_inv_def initial_train_state_def)

lemma ckpt_inv_train_epoch:
  assumes "ckpt_inv s"
  shows "ckpt_inv (train_epoch step e s)"
proof -
  obtain l w opt where st: "step (weights s) (optimizer s) = (l, w, opt)"
    by (cases "step (weights s) (optimizer s)") auto
  show ?thesis
  proof (cases "float_lt l (best_loss s)")
    case True
    have "list_all (\<lambda>(e, l', w). \<not> float_lt l' l) (history s)"
      using assms True unfolding ckpt_inv_def list_all_iff
      by (auto dest: float_lt_trans)
    with True show ?thesis
      by (simp add: ckpt_inv_def train_epoch_def st float_lt_irrefl float_lt_PInf)
  next
    case False
    with assms show ?thesis
      by (auto simp: ckpt_inv_def train_epoch_def st split: option.splits)
  qed
qed

lemma ckpt_inv_train_loop:
  "ckpt_inv s \<Longrightarrow> ckpt_inv (train_loop step p es s)"
  by (induction es arbitrary: s) (auto simp: Let_def ckpt_inv_train_epoch)



lemma snd_bind_c_Inr:
  "snd (bind_c m f) = Inr y \<longleftrightarrow> (\<exists>x. snd m = Inr x \<and> snd (f x) = Inr y)"
  by (cases "snd m") (simp_all add: bind_c_def)

lemma snd_call_c: "snd (call_c opn r) = r"
  by (simp add: call_c_def)

lemma snd_train_c:
  "snd (train_c step p T w opt) = Inr s \<longleftrightarrow>
     s = train_loop step p (py_range T) (initial_train_state w opt)"
  by (auto simp: train_c_def Let_def)

lemma Linear_create_returns:
  assumes "snd (Linear_create_learnable_directions B ir ps dev p T lr L ibc) = Inr w"
  shows "\<exists>dataset w0.
           load_state_dict (best_model_state_dict
             (train_loop (torch_epoch_sum B dataset) p (py_range T)
                (initial_train_state w0 (torch_adam B w0 lr)))) = Inr w"
  using assms
  by (auto simp: Linear_create_learnable_directions_def snd_bind_c_Inr snd_call_c snd_train_c
      raise_c_def split: if_splits)

lemma Nonlinear_create_returns:
  assumes "snd (Nonlinear_create_learnable_directions B ir ps dev p T lr L ibc) = Inr sp"
  shows "\<exists>dataset w0.
           load_state_dict (best_model_state_dict
             (train_loop (torch_epoch_mean B (space_origin sp) dataset) p (py_range T)
                (initial_train_state w0 (torch_adam B w0 lr)))) = Inr (space_weights sp)"
  using assms
  apply (auto simp: Nonlinear_create_learnable_directions_def snd_bind_c_Inr snd_call_c
      snd_train_c raise_c_def pure_c_def split: if_splits)
  apply blast
  done





















text \<open>
  C10. The reload at the end of both \<^verbatim>\<open>create_learnable_directions\<close> functions
  succeeds exactly when some epoch that ran recorded a loss strictly below infinity.
  Otherwise (no epoch ran because \<^verbatim>\<open>training_epochs\<close> is at most 0, or every loss
  compared false against the running best, as not-a-number and infinity do)
  \<^verbatim>\<open>best_model_state_dict\<close> is still \<open>None\<close> and \<^verbatim>\<open>load_state_dict\<close> fails; with
  \<^verbatim>\<open>training_epochs\<close> at most 0 neither function returns a result.
\<close>

theorem reload_requires_loss_below_infinity:
  assumes "s = train_loop epoch_step patience (py_range epochs) (initial_train_state w0 opt0)"
  shows "(load_state_dict (best_model_state_dict s) = Inl TypeError
            \<longleftrightarrow> list_all (\<lambda>(e, l, w). \<not> float_lt l PInf) (history s))
       \<and> ((\<exists>w. load_state_dict (best_model_state_dict s) = Inr w)
            \<longleftrightarrow> list_ex (\<lambda>(e, l, w). float_lt l PInf) (history s))
       \<and> (epochs \<le> 0 \<longrightarrow> history s = [] \<and> best_model_state_dict s = None)
       \<and> (epochs \<le> 0 \<longrightarrow>
            (\<forall>w. snd (Linear_create_learnable_directions B ir ps dev patience epochs lr L ibc)
                   \<noteq> Inr w)
            \<and> (\<forall>sp. snd (Nonlinear_create_learnable_directions B ir ps dev patience epochs lr
                          L ibc) \<noteq> Inr sp))"
proof -
  have inv: "ckpt_inv s"
    unfolding assms by (intro ckpt_inv_train_loop ckpt_inv_initial)
  have none: "best_model_state_dict s = None
                \<longleftrightarrow> list_all (\<lambda>(e, l, w). \<not> float_lt l PInf) (history s)"
  proof (cases "best_model_state_dict s")
    case None
    with inv show ?thesis by (auto simp: ckpt_inv_def)
  next
    case (Some w)
    with inv have "(best_epoch s, best_loss s, w) \<in> set (history s)"
      and "float_lt (best_loss s) PInf"
      by (simp_all add: ckpt_inv_def)
    then have "\<not> list_all (\<lambda>(e, l, w). \<not> float_lt l PInf) (history s)"
      unfolding list_all_iff by (intro notI) (drule bspec, assumption, simp)
    with Some show ?thesis by simp
  qed
  have a: "load_state_dict (best_model_state_dict s) = Inl TypeError
            \<longleftrightarrow> list_all (\<lambda>(e, l, w). \<not> float_lt l PInf) (history s)"
    unfolding none [symmetric] by (simp add: load_state_dict_def split: option.splits)
  have b: "(\<exists>w. load_state_dict (best_model_state_dict s) = Inr w)
            \<longleftrightarrow> list_ex (\<lambda>(e, l, w). float_lt l PInf) (history s)"
  proof -
    have "list_ex (\<lambda>(e, l, w). float_lt l PInf) (history s)
            \<longleftrightarrow> \<not> list_all (\<lambda>(e, l, w). \<not> float_lt l PInf) (history s)"
      by (simp add: list_all_iff list_ex_iff case_prod_beta)
    then show ?thesis
      unfolding none [symmetric] by (simp add: load_state_dict_def split: option.splits)
  qed
  have c: "epochs \<le> 0 \<longrightarrow> history s = [] \<and> best_model_state_dict s = None"
    by (simp add: assms py_range_def initial_train_state_def)
  have d: "epochs \<le> 0 \<longrightarrow>
            (\<forall>w. snd (Linear_create_learnable_directions B ir ps dev patience epochs lr L ibc)
                   \<noteq> Inr w)
            \<and> (\<forall>sp. snd (Nonlinear_create_learnable_directions B ir ps dev patience epochs lr
                          L ibc) \<noteq> Inr sp)"
  proof (intro impI conjI allI notI)
    fix w
    assume "epochs \<le> 0"
      and "snd (Linear_create_learnable_directions B ir ps dev patience epochs lr L ibc) = Inr w"
    then show False
      by (auto dest!: Linear_create_returns
          simp: py_range_def initial_train_state_def load_state_dict_def)
  next
    fix sp
    assume "epochs \<le> 0"
      and "snd (Nonlinear_create_learnable_directions B ir ps dev patience epochs lr L ibc)
             = Inr sp"
    then show False
      by (auto dest!: Nonlinear_create_returns
          simp: py_range_def initial_train_state_def load_state_dict_def)
  qed
  from a b c d show ?thesis by blast
qed

theorem reload_requires_loss_below_infinity_witness:
  "length (history (train_loop (example_step [NaN, PInf, NaN]) 5 (py_range 3)
       (initial_train_state [] 0))) = 3
   \<and> load_state_dict (best_model_state_dict
        (train_loop (example_step [NaN, PInf, NaN]) 5 (py_range 3)
          (initial_train_state [] 0))) = Inl TypeError
   \<and> load_state_dict (best_model_state_dict
        (train_loop (example_step [Fin 1]) 5 (py_range 0)
          (initial_train_state [] 0))) = Inl TypeError"
  using reload_requires_loss_below_infinity [OF refl, of "example_step [NaN, PInf, NaN]" 5 3 "[]" 0]
    reload_requires_loss_below_infinity [OF refl, of "example_step [Fin 1]" 5 0 "[]" 0]
  by (simp add: py_range_def train_epoch_def example_step_def initial_train_state_def
      load_state_dict_def upt_conv_Cons)

section \<open>Where the number of basis counts is checked\<close>

lemma fst_bind_call_c:
  "fst (bind_c (call_c opn r) f) = opn # (case r of Inl e \<Rightarrow> [] | Inr x \<Rightarrow> fst (f x))"
  by (cases r) (simp_all add: bind_c_def call_c_def)

lemma Linear_create_touches_tensors_first:
  assumes "ir \<noteq> []"
  shows "\<exists>ops. fst (Linear_create_learnable_directions B ir ps dev p T lr L ibc)
           = ParametersToVector # ops"
  using assms by (simp add: Linear_create_learnable_directions_def fst_bind_call_c)

lemma Nonlinear_create_checks_first:
  assumes "ir \<noteq> []" and "int (length ibc) \<noteq> L - 1"
  shows "Nonlinear_create_learnable_directions B ir ps dev p T lr L ibc = ([], Inl ValueError)"
  using assms by (simp add: Nonlinear_create_learnable_directions_def raise_c_def)

text \<open>
  C4. With three layers and one intermediate basis count (two are required), on a
  trajectory of one snapshot: \<^verbatim>\<open>LearnableNonlinearDirections.create_learnable_directions\<close>
  raises \<^verbatim>\<open>ValueError\<close> before any tensor operation, while
  \<^verbatim>\<open>LearnableDirections.create_learnable_directions\<close> flattens the parameters and the
  snapshot, subtracts, moves the difference to the device and stacks the dataset, and only
  then fails, with the \<^verbatim>\<open>AssertionError\<close> of the autoencoder's constructor.
\<close>

theorem basis_count_checked_after_tensor_work:
  "Linear_create_learnable_directions B
      [[\<lparr>shape = [2], data = [1, 2 :: real]\<rparr>]] [\<lparr>shape = [2], data = [0, 0]\<rparr>]
      Cpu 250 1000 lr 3 [64]
     = ([ParametersToVector, ParametersToVector, Subtract, ToDevice, Stack], Inl AssertionError)
   \<and> Nonlinear_create_learnable_directions B
      [[\<lparr>shape = [2], data = [1, 2 :: real]\<rparr>]] [\<lparr>shape = [2], data = [0, 0]\<rparr>]
      Cpu 250 1000 lr 3 [64]
     = ([], Inl ValueError)"
  by (simp add: Linear_create_learnable_directions_def Nonlinear_create_learnable_directions_def
      bind_c_def call_c_def raise_c_def pure_c_def parameters_to_vector_def vector_sub_def
      stack_def index_c_def py_index_def LinearAutoEncoder_init_def)


section \<open>The losses of a trajectory\<close>

text \<open>
  C9. For each of the four builders that take a trajectory, constructing the builder on a
  list of pairs of a parameter set and a loss and asking for its directions gives the
  same outcome (result or exception, and the same tensor operations) as on the list of
  the parameter sets alone, whatever the losses are: two runs that differ only in the
  losses agree, both being equal to the run without losses.
\<close>

theorem losses_do_not_influence_directions:
  "Pca_directions B opt (WithLoss pl) dev = Pca_directions B opt (Plain (map fst pl)) dev
   \<and> Svd_directions B' opt (WithLoss pl) = Svd_directions B' opt (Plain (map fst pl))
   \<and> Linear_directions B' opt (WithLoss pl) dev layers lr epochs patience basis act
       = Linear_directions B' opt (Plain (map fst pl)) dev layers lr epochs patience basis act
   \<and> Nonlinear_directions B' opt (WithLoss pl) dev layers lr epochs patience basis act
       = Nonlinear_directions B' opt (Plain (map fst pl)) dev layers lr epochs patience basis act"
  by (simp add: Pca_directions_def Svd_directions_def Linear_directions_def
      Nonlinear_directions_def PcaDirections_init_def SvdDirections_init_def
      LearnableDirections_init_def LearnableNonlinearDirections_init_def)

theorem losses_do_not_influence_directions_witness:
  "Pca_directions example_backend [\<lparr>shape = [2], data = [0, 0]\<rparr>]
       (WithLoss [([\<lparr>shape = [2], data = [0, 1]\<rparr>], Fin 3),
                  ([\<lparr>shape = [2], data = [0, - 1]\<rparr>], Fin 2)]) Cpu
     = Pca_directions example_backend [\<lparr>shape = [2], data = [0, 0]\<rparr>]
         (WithLoss [([\<lparr>shape = [2], data = [0, 1]\<rparr>], NaN),
                    ([\<lparr>shape = [2], data = [0, - 1]\<rparr>], PInf)]) Cpu"
  using losses_do_not_influence_directions [of example_backend
          "[\<lparr>shape = [2], data = [0, 0]\<rparr>]"
          "[([\<lparr>shape = [2], data = [0, 1]\<rparr>], Fin 3),
            ([\<lparr>shape = [2], data = [0, - 1]\<rparr>], Fin 2)]" Cpu, THEN conjunct1]
    losses_do_not_influence_directions [of example_backend
          "[\<lparr>shape = [2], data = [0, 0]\<rparr>]"
          "[([\<lparr>shape = [2], data = [0, 1]\<rparr>], NaN),
            ([\<lparr>shape = [2], data = [0, - 1]\<rparr>], PInf)]" Cpu, THEN conjunct1]
  by simp

section \<open>Covariance, eigenpairs and singular vectors\<close>

lemma bind_call_Inr [simp]:
  "bind_c (call_c opn (Inr x)) f = (opn # fst (f x), snd (f x))"
  by (simp add: bind_c_def call_c_def)

lemma bind_call_Inl [simp]:
  "bind_c (call_c opn (Inl e)) f = ([opn], Inl e)"
  by (simp add: bind_c_def call_c_def)

lemma bind_pure [simp]: "bind_c (pure_c x) f = f x"
  by (simp add: bind_c_def pure_c_def)

lemma bind_raise [simp]: "bind_c (raise_c e) f = raise_c e"
  by (simp add: bind_c_def raise_c_def)

lemma bind_pair [simp]: "bind_c (ops, Inr x) f = (ops @ fst (f x), snd (f x))"
  by (simp add: bind_c_def)

lemma stack_1:
  assumes "samples \<noteq> []" and "\<forall>x\<in>set samples. length x = F"
  shows "stack samples 1 =
           Inr \<lparr>shape = [F, length samples],
                data = concat (map (\<lambda>j. map (\<lambda>x. x ! j) samples) [0..<F])\<rparr>"
proof -
  have "length (hd samples) = F" using assms by (cases samples) auto
  moreover have "\<not> list_ex (\<lambda>x. length x \<noteq> length (hd samples)) samples"
    using assms \<open>length (hd samples) = F\<close> by (auto simp: list_ex_iff)
  ultimately show ?thesis using assms(1) by (simp add: stack_def)
qed

lemma length_concat_const:
  "(\<And>x. x \<in> set xs \<Longrightarrow> length x = n) \<Longrightarrow> length (concat xs) = length xs * n"
  by (induction xs) auto

lemma matrix_rows_length:
  "shape m = [r, c] \<Longrightarrow> length (matrix_rows m) = r"
  by (simp add: matrix_rows_def)

lemma cov_shape:
  assumes "shape m = [F, N]"
  shows "\<exists>c. cov B m = Inr c \<and> shape c = (if F = 1 then [] else [F, F])
           \<and> length (data c) = F * F"
  using assms
  by (auto simp: cov_def squeeze_def matrix_rows_length length_concat comp_def sum_list_triv)

lemma covariance_shape:
  assumes "samples \<noteq> []" and "\<forall>x\<in>set samples. length x = F"
  shows "\<exists>c. calculate_covariance_matrix B samples = ([Stack, Cov], Inr c)
           \<and> shape c = (if F = 1 then [] else [F, F]) \<and> length (data c) = F * F"
proof -
  let ?m = "\<lparr>shape = [F, length samples],
             data = concat (map (\<lambda>j. map (\<lambda>x. x ! j) samples) [0..<F])\<rparr>"
  from cov_shape [of ?m F "length samples" B] obtain c where
    c: "cov B ?m = Inr c" "shape c = (if F = 1 then [] else [F, F])" "length (data c) = F * F"
    by auto
  have "calculate_covariance_matrix B samples = ([Stack, Cov], cov B ?m)"
    unfolding calculate_covariance_matrix_def stack_1 [OF assms]
    by (simp add: call_c_def)
  with c show ?thesis by simp
qed


lemma cov_example:
  "calculate_covariance_matrix example_backend [[1, 2, 3], [3, 2, 7]]
     = ([Stack, Cov], Inr \<lparr>shape = [3, 3], data = [2, 0, 4, 0, 0, 0, 4, 0, 8]\<rparr>)
   \<and> stack [[1, 2, 3], [3, 2, 7 :: real]] 1 = Inr \<lparr>shape = [3, 2], data = [1, 3, 2, 2, 3, 7]\<rparr>"
  by (simp add: calculate_covariance_matrix_def stack_def cov_def squeeze_def matrix_rows_def
      example_backend_def sample_covariance_def upt_conv_Cons call_c_def)










text \<open>
  C1, as amended. For \<open>N \<ge> 1\<close> samples of \<open>F\<close> features each,
  \<^verbatim>\<open>PcaDirections.calculate_covariance_matrix\<close> stacks the samples as the columns of a
  matrix and returns the covariance matrix of its \<open>F\<close> rows: \<open>F\<close> rows and \<open>F\<close>
  columns, \<open>F\<^sup>2\<close> entries (a tensor of no dimension for \<open>F = 1\<close>), whatever \<open>N\<close> is. It is
  quadratic in the number of parameters, not in the length of the trajectory.
\<close>

theorem covariance_is_quadratic_in_parameter_count:
  assumes "samples \<noteq> []" and "\<forall>x\<in>set samples. length x = F"
  shows "\<exists>c. calculate_covariance_matrix B samples = ([Stack, Cov], Inr c)
           \<and> shape c = (if F = 1 then [] else [F, F]) \<and> length (data c) = F * F"
  using assms by (rule covariance_shape)

theorem covariance_is_quadratic_in_parameter_count_witness:
  "[[1, 2, 3], [3, 2, 7 :: real]] \<noteq> []
   \<and> (\<exists>c. calculate_covariance_matrix example_backend [[1, 2, 3], [3, 2, 7]]
             = ([Stack, Cov], Inr c)
           \<and> shape c = [3, 3] \<and> length (data c) = 9)"
  using covariance_is_quadratic_in_parameter_count
          [of "[[1, 2, 3], [3, 2, 7 :: real]]" 3 example_backend]
  by simp

text \<open>
  Two samples of three features: the covariance matrix has three rows and three columns,
  not two and two, and the matrix of all samples (three rows, two columns) is built by
  \<^verbatim>\<open>torch.stack\<close> on the way.
\<close>

theorem covariance_quadratic_in_trajectory_length_counterexample:
  "calculate_covariance_matrix example_backend [[1, 2, 3], [3, 2, 7]]
     = ([Stack, Cov], Inr \<lparr>shape = [3, 3], data = [2, 0, 4, 0, 0, 0, 4, 0, 8]\<rparr>)
   \<and> stack [[1, 2, 3], [3, 2, 7 :: real]] 1 = Inr \<lparr>shape = [3, 2], data = [1, 3, 2, 2, 3, 7]\<rparr>"
  by (rule cov_example)












section \<open>The norms after normalization and the guarded division\<close>

lemma ravel_less:
  "list_all2 (<) js ns \<Longrightarrow> ravel ns js < prod_list ns"
proof (induction js ns rule: list_all2_induct)
  case Nil
  then show ?case by simp
next
  case (Cons j js n ns)
  have "j * prod_list ns + ravel ns js < j * prod_list ns + prod_list ns"
    using Cons.IH by simp
  also have "\<dots> = Suc j * prod_list ns" by simp
  also have "\<dots> \<le> n * prod_list ns"
    using Cons.hyps(1) by (intro mult_le_mono1) simp
  finally show ?case by simp
qed

lemma unravel_ravel:
  "list_all2 (<) js ns \<Longrightarrow> unravel ns (ravel ns js) = js"
proof (induction js ns rule: list_all2_induct)
  case Nil
  then show ?case by simp
next
  case (Cons j js n ns)
  have r: "ravel ns js < prod_list ns" by (rule ravel_less [OF Cons.hyps(2)])
  then show ?case using Cons.IH by simp
qed

lemma unravel_valid:
  "k < prod_list ns \<Longrightarrow> list_all2 (<) (unravel ns k) ns"
proof (induction ns arbitrary: k)
  case Nil
  then show ?case by simp
next
  case (Cons n ns)
  from Cons.prems have k: "k < n * prod_list ns" by simp
  then have pos: "0 < prod_list ns" by (cases "prod_list ns = 0") auto
  have "k div prod_list ns < n"
    using k by (simp add: less_mult_imp_div_less)
  moreover have "list_all2 (<) (unravel ns (k mod prod_list ns)) ns"
    using pos by (intro Cons.IH) simp
  ultimately show ?case by simp
qed

lemma ravel_unravel:
  "k < prod_list ns \<Longrightarrow> ravel ns (unravel ns k) = k"
proof (induction ns arbitrary: k)
  case Nil
  then show ?case by simp
next
  case (Cons n ns)
  from Cons.prems have k: "k < n * prod_list ns" by simp
  then have pos: "0 < prod_list ns" by (cases "prod_list ns = 0") auto
  then have "ravel ns (unravel ns (k mod prod_list ns)) = k mod prod_list ns"
    by (intro Cons.IH) simp
  then show ?case by simp
qed

lemma length_unravel: "length (unravel ns k) = length ns"
  by (induction ns arbitrary: k) simp_all


lemma broadcast_rev_ones:
  "list_all2 (\<lambda>x y. y = x \<or> y = 1) xs ys \<Longrightarrow> broadcast_rev xs ys = Some xs"
  by (induction xs ys rule: list_all2_induct) auto

lemma broadcast_shapes_same: "broadcast_shapes sh sh = Some sh"
proof -
  have "list_all2 (\<lambda>x y. y = x \<or> y = 1) (rev sh) (rev sh)"
    by (simp add: list_all2_conv_all_nth)
  then show ?thesis
    by (simp add: broadcast_shapes_def broadcast_rev_ones)
qed

lemma broadcast_shapes_keepdim: "broadcast_shapes sh (sh[d := 1]) = Some sh"
proof -
  have "list_all2 (\<lambda>x y. y = x \<or> y = 1) sh (sh[d := 1])"
    by (cases "d < length sh") (auto simp: list_all2_conv_all_nth nth_list_update)
  then have "list_all2 (\<lambda>x y. y = x \<or> y = 1) (rev sh) (rev (sh[d := 1]))"
    by (simp only: list_all2_rev)
  then show ?thesis
    by (simp add: broadcast_shapes_def broadcast_rev_ones)
qed

lemma clamp_valid:
  fixes js ns :: "nat list"
  assumes "list_all2 (<) js ns"
  shows "map2 (\<lambda>n i. if n = 1 then 0 else i) (ns[d := 1]) js = js[d := 0]"
proof (rule nth_equalityI)
  from assms have len: "length js = length ns" by (rule list_all2_lengthD)
  then show "length (map2 (\<lambda>n i. if n = 1 then 0 else i) (ns[d := 1]) js) = length (js[d := 0])"
    by simp
  fix i assume "i < length (map2 (\<lambda>n i. if n = 1 then 0 else i) (ns[d := 1]) js)"
  then have i: "i < length ns" using len by simp
  with assms have "js ! i < ns ! i" by (simp add: list_all2_conv_all_nth)
  with i len show "map2 (\<lambda>n i. if n = 1 then 0 else i) (ns[d := 1]) js ! i = js[d := 0] ! i"
    by (cases "d < length ns") (auto simp: nth_list_update)
qed

lemma clamp_valid_same:
  fixes js ns :: "nat list"
  assumes "list_all2 (<) js ns"
  shows "map2 (\<lambda>n i. if n = 1 then 0 else i) ns js = js"
proof (rule nth_equalityI)
  from assms have len: "length js = length ns" by (rule list_all2_lengthD)
  then show "length (map2 (\<lambda>n i. if n = 1 then 0 else i) ns js) = length js"
    by simp
  fix i assume "i < length (map2 (\<lambda>n i. if n = 1 then 0 else i) ns js)"
  then have i: "i < length ns" using len by simp
  with assms have "js ! i < ns ! i" by (simp add: list_all2_conv_all_nth)
  with i len show "map2 (\<lambda>n i. if n = 1 then 0 else i) ns js ! i = js ! i"
    by auto
qed

lemma broadcast_index_same:
  assumes "k < prod_list sh"
  shows "broadcast_index sh sh k = k"
proof -
  have "map2 (\<lambda>n i. if n = 1 then 0 else i) sh (unravel sh k) = unravel sh k"
    by (rule clamp_valid_same [OF unravel_valid [OF assms]])
  then show ?thesis
    by (simp only: broadcast_index_def diff_self_eq_0 drop_0 ravel_unravel [OF assms])
qed

lemma broadcast_index_keepdim:
  assumes "k < prod_list sh"
  shows "broadcast_index (sh[d := 1]) sh k = ravel (sh[d := 1]) ((unravel sh k)[d := 0])"
proof -
  have "map2 (\<lambda>n i. if n = 1 then 0 else i) (sh[d := 1]) (unravel sh k) = (unravel sh k)[d := 0]"
    by (rule clamp_valid [OF unravel_valid [OF assms]])
  then show ?thesis
    by (simp only: broadcast_index_def length_list_update diff_self_eq_0 drop_0)
qed

lemma valid_update:
  fixes js ns :: "nat list"
  assumes "list_all2 (<) js (ns[d := m])" and "j < n"
  shows "list_all2 (<) (js[d := j]) (ns[d := n])"
proof -
  from assms(1) have len: "length js = length ns"
    by (auto dest: list_all2_lengthD)
  show ?thesis
    unfolding list_all2_conv_all_nth
  proof (intro conjI allI impI)
    show "length (js[d := j]) = length (ns[d := n])" using len by simp
    fix i assume "i < length (js[d := j])"
    then have i: "i < length ns" using len by simp
    show "js[d := j] ! i < ns[d := n] ! i"
    proof (cases "i = d")
      case True
      with i len assms(2) show ?thesis by simp
    next
      case False
      from assms(1) i len have "js ! i < ns[d := m] ! i"
        by (simp add: list_all2_conv_all_nth)
      with False show ?thesis by simp
    qed
  qed
qed

lemma scale_index_less:
  assumes "k < prod_list sh"
  shows "ravel (sh[d := 1]) ((unravel sh k)[d := 0]) < prod_list (sh[d := 1])"
proof -
  have "list_all2 (<) (unravel sh k) (sh[d := sh ! d])"
    using unravel_valid [OF assms] by simp
  then have "list_all2 (<) ((unravel sh k)[d := 0]) (sh[d := 1])"
    by (rule valid_update) simp
  then show ?thesis by (rule ravel_less)
qed


lemma norm_dimensions_ok:
  "norm_dimensions P < length (shape P) \<or> (shape P = [] \<and> norm_dimensions P = 0)"
  by (cases "shape P") (auto simp: norm_dimensions_def)

lemma norm_keepdim_returns:
  assumes "shape t = shape P"
  shows "norm_keepdim t (norm_dimensions P) =
           Inr \<lparr>shape = (shape P)[norm_dimensions P := 1],
                data = map (\<lambda>k. vector_norm (fibre t (norm_dimensions P) k))
                         [0..<prod_list ((shape P)[norm_dimensions P := 1])]\<rparr>"
  using norm_dimensions_ok [of P] by (auto simp: norm_keepdim_def assms)

lemma scaling_factor_returns:
  assumes "shape a = sh" and "shape b = sh"
    and "data a = map f [0..<prod_list sh]" and "data b = map g [0..<prod_list sh]"
  shows "broadcast_op h a b = Inr \<lparr>shape = sh, data = map (\<lambda>k. h (f k) (g k)) [0..<prod_list sh]\<rparr>"
  by (simp add: broadcast_op_def assms broadcast_shapes_same broadcast_index_same)

lemma imul_returns:
  assumes "shape a = sh" and "shape b = sh[d := 1]"
    and "data b = map g [0..<prod_list (sh[d := 1])]"
  shows "imul a b = Inr \<lparr>shape = sh,
           data = map (\<lambda>k. float_mul (data a ! k) (g (ravel (sh[d := 1]) ((unravel sh k)[d := 0]))))
                    [0..<prod_list sh]\<rparr>"
proof -
  have bs: "broadcast_shapes (shape a) (shape b) = Some sh"
    unfolding assms by (rule broadcast_shapes_keepdim)
  have "map (\<lambda>k. float_mul (data a ! broadcast_index (shape a) sh k)
                    (data b ! broadcast_index (shape b) sh k)) [0..<prod_list sh]
          = map (\<lambda>k. float_mul (data a ! k) (g (ravel (sh[d := 1]) ((unravel sh k)[d := 0]))))
              [0..<prod_list sh]"
  proof (rule map_cong [OF refl])
    fix k assume "k \<in> set [0..<prod_list sh]"
    then have k: "k < prod_list sh" by simp
    have 1: "broadcast_index (shape a) sh k = k"
      unfolding assms(1) by (rule broadcast_index_same [OF k])
    have 2: "broadcast_index (shape b) sh k = ravel (sh[d := 1]) ((unravel sh k)[d := 0])"
      unfolding assms(2) by (rule broadcast_index_keepdim [OF k])
    have 3: "ravel (sh[d := 1]) ((unravel sh k)[d := 0]) < prod_list (sh[d := 1])"
      by (rule scale_index_less [OF k])
    have 4: "data b ! ravel (sh[d := 1]) ((unravel sh k)[d := 0])
               = g (ravel (sh[d := 1]) ((unravel sh k)[d := 0]))"
      unfolding assms(3) using 3 by (subst nth_map_upt) simp_all
    show "float_mul (data a ! broadcast_index (shape a) sh k)
              (data b ! broadcast_index (shape b) sh k)
            = float_mul (data a ! k) (g (ravel (sh[d := 1]) ((unravel sh k)[d := 0])))"
      unfolding 1 2 4 by (rule refl)
  qed
  then have eq: "map (\<lambda>k. float_mul (data a ! broadcast_index (shape a) sh k)
                    (data b ! broadcast_index (shape b) sh k)) [0..<prod_list sh]
          = map (\<lambda>k. float_mul (data a ! k) (g (ravel (sh[d := 1]) ((unravel sh k)[d := 0]))))
              [0..<prod_list sh]" .
  have bs': "broadcast_shapes (shape a) (shape b) = Some (shape a)"
    using bs assms(1) by simp
  have "imul a b = broadcast_op float_mul a b"
    by (simp only: imul_def bs' simp_thms if_True)
  also have "\<dots> = Inr \<lparr>shape = sh,
       data = map (\<lambda>k. float_mul (data a ! broadcast_index (shape a) sh k)
                    (data b ! broadcast_index (shape b) sh k)) [0..<prod_list sh]\<rparr>"
    by (simp only: broadcast_op_def bs option.case)
  finally show ?thesis by (simp only: eq)
qed

lemma vector_norm_nonneg: "0 \<le> vector_norm xs"
  unfolding vector_norm_def by (intro real_sqrt_ge_zero sum_list_nonneg) auto

lemma float_div_guarded:
  "float_div p (vector_norm xs + 1 / 10 ^ 10) = Fin (p / (vector_norm xs + 1 / 10 ^ 10))"
proof -
  have "0 < vector_norm xs + 1 / 10 ^ 10"
    by (intro add_nonneg_pos vector_norm_nonneg) simp
  then show ?thesis by (simp add: float_div_def)
qed

lemma normalize_direction_returns:
  assumes "shape D = shape P"
  shows "normalize_direction D P =
           Inr (finite_tensor \<lparr>shape = shape P,
                data = map (\<lambda>k. data D ! k *
                         (vector_norm (fibre P (norm_dimensions P)
                            (ravel ((shape P)[norm_dimensions P := 1])
                               ((unravel (shape P) k)[norm_dimensions P := 0])))
                          / (vector_norm (fibre D (norm_dimensions P)
                               (ravel ((shape P)[norm_dimensions P := 1])
                                  ((unravel (shape P) k)[norm_dimensions P := 0])))
                             + 1 / 10 ^ 10)))
                       [0..<prod_list (shape P)]\<rparr>)"
proof -
  let ?d = "norm_dimensions P"
  let ?sh' = "(shape P)[?d := 1]"
  let ?nd = "\<lparr>shape = ?sh', data = map (\<lambda>k. vector_norm (fibre D ?d k)) [0..<prod_list ?sh']\<rparr>"
  let ?np = "\<lparr>shape = ?sh', data = map (\<lambda>k. vector_norm (fibre P ?d k)) [0..<prod_list ?sh']\<rparr>"
  let ?c = "\<lambda>k. vector_norm (fibre P ?d k) / (vector_norm (fibre D ?d k) + 1 / 10 ^ 10)"
  let ?s = "\<lparr>shape = ?sh', data = map (\<lambda>k. Fin (?c k)) [0..<prod_list ?sh']\<rparr>"
  have nd: "norm_keepdim D ?d = Inr ?nd" by (rule norm_keepdim_returns [OF assms])
  have np: "norm_keepdim P ?d = Inr ?np" by (rule norm_keepdim_returns [OF refl])
  have "broadcast_op float_div ?np (add_scalar ?nd (1 / 10 ^ 10))
          = Inr \<lparr>shape = ?sh',
                 data = map (\<lambda>k. float_div (vector_norm (fibre P ?d k))
                                     (vector_norm (fibre D ?d k) + 1 / 10 ^ 10))
                          [0..<prod_list ?sh']\<rparr>"
    by (rule scaling_factor_returns) (simp_all add: add_scalar_def)
  then have s: "broadcast_op float_div ?np (add_scalar ?nd (1 / 10 ^ 10)) = Inr ?s"
    by (simp only: float_div_guarded)
  have m: "imul D ?s = Inr \<lparr>shape = shape P,
             data = map (\<lambda>k. float_mul (data D ! k)
                                 (Fin (?c (ravel ?sh' ((unravel (shape P) k)[?d := 0])))))
                       [0..<prod_list (shape P)]\<rparr>"
    by (rule imul_returns) (simp_all add: assms)
  have "normalize_direction D P = Inr \<lparr>shape = shape P,
             data = map (\<lambda>k. float_mul (data D ! k)
                                 (Fin (?c (ravel ?sh' ((unravel (shape P) k)[?d := 0])))))
                       [0..<prod_list (shape P)]\<rparr>"
    unfolding normalize_direction_def nd np by (simp only: sum.case s m)
  then show ?thesis
    by (simp add: finite_tensor_def float_mul_def comp_def)
qed

lemma finite_tensor_inject: "finite_tensor a = finite_tensor b \<Longrightarrow> a = b"
  by (cases a, cases b) (auto simp: finite_tensor_def dest: map_injective [rotated] simp: inj_def)

lemma vector_norm_scaled: "vector_norm (map (\<lambda>x. x * c) xs) = \<bar>c\<bar> * vector_norm xs"
proof -
  have "sum_list (map (\<lambda>x. (x * c) * (x * c)) xs) = (c * c) * sum_list (map (\<lambda>x. x * x) xs)"
    by (induction xs) (simp_all add: algebra_simps)
  then show ?thesis
    by (simp add: vector_norm_def comp_def real_sqrt_mult)
qed

lemma vector_norm_zero: "(\<forall>x\<in>set xs. x = 0) \<Longrightarrow> vector_norm xs = 0"
  by (induction xs) (simp_all add: vector_norm_def)

lemma fibre_of_normalized:
  assumes sh: "shape D = shape P" and wf: "wf_tensor D"
    and r: "normalize_direction D P = Inr (finite_tensor D')"
    and k: "k < prod_list ((shape P)[norm_dimensions P := 1])"
  shows "fibre D' (norm_dimensions P) k =
           map (\<lambda>x. x * (vector_norm (fibre P (norm_dimensions P) k)
                          / (vector_norm (fibre D (norm_dimensions P) k) + 1 / 10 ^ 10)))
             (fibre D (norm_dimensions P) k)"
proof -
  let ?d = "norm_dimensions P"
  let ?sh = "shape P"
  let ?sh' = "?sh[?d := 1]"
  let ?c = "\<lambda>i. vector_norm (fibre P ?d i) / (vector_norm (fibre D ?d i) + 1 / 10 ^ 10)"
  let ?q = "\<lambda>i. ravel ?sh' ((unravel ?sh i)[?d := 0])"
  from r normalize_direction_returns [OF sh]
  have D': "D' = \<lparr>shape = ?sh, data = map (\<lambda>i. data D ! i * ?c (?q i)) [0..<prod_list ?sh]\<rparr>"
    by (auto dest: finite_tensor_inject)
  show ?thesis
  proof (cases "?sh = []")
    case True
    with k have k0: "k = 0" by simp
    from True wf sh have "length (data D) = 1" by (simp add: wf_tensor_def)
    then obtain x where x: "data D = [x]"
      by (cases "data D") auto
    show ?thesis
      using True sh by (simp add: fibre_def D' x k0)
  next
    case False
    with norm_dimensions_ok [of P] have d: "?d < length ?sh" by auto
    let ?m = "unravel ?sh' k"
    have m: "list_all2 (<) ?m ?sh'" by (rule unravel_valid [OF k])
    have len: "length ?m = length ?sh" by (simp add: length_unravel)
    have "?m ! ?d < ?sh' ! ?d"
      using m by (rule list_all2_nthD) (simp add: length_unravel d)
    moreover have "?sh' ! ?d = 1" using d by simp
    ultimately have md: "?m ! ?d = 0" by simp
    have m0: "?m[?d := 0] = ?m"
      using md by (metis list_update_id)
    have entry: "data D' ! ravel ?sh (?m[?d := j]) = data D ! ravel ?sh (?m[?d := j]) * ?c k"
      if j: "j < ?sh ! ?d" for j
    proof -
      have "list_all2 (<) (?m[?d := j]) (?sh[?d := ?sh ! ?d])"
        using m j by (rule valid_update)
      then have v: "list_all2 (<) (?m[?d := j]) ?sh" by simp
      then have lt: "ravel ?sh (?m[?d := j]) < prod_list ?sh" by (rule ravel_less)
      have "?q (ravel ?sh (?m[?d := j])) = ravel ?sh' ((?m[?d := j])[?d := 0])"
        by (simp only: unravel_ravel [OF v])
      also have "\<dots> = ravel ?sh' ?m" by (simp only: list_update_overwrite m0)
      also have "\<dots> = k" by (rule ravel_unravel [OF k])
      finally have q: "?q (ravel ?sh (?m[?d := j])) = k" .
      have "data D' ! ravel ?sh (?m[?d := j])
              = data D ! ravel ?sh (?m[?d := j]) * ?c (?q (ravel ?sh (?m[?d := j])))"
        unfolding D' using lt by (simp del: upt_Suc)
      then show ?thesis by (simp only: q)
    qed
    have "fibre D' ?d k = map (\<lambda>j. data D' ! ravel ?sh (?m[?d := j])) [0..<?sh ! ?d]"
      using False by (simp add: fibre_def D')
    also have "\<dots> = map (\<lambda>j. data D ! ravel ?sh (?m[?d := j]) * ?c k) [0..<?sh ! ?d]"
    proof (rule map_cong [OF refl])
      fix j assume "j \<in> set [0..<?sh ! ?d]"
      then have "j < ?sh ! ?d" by simp
      then show "data D' ! ravel ?sh (?m[?d := j]) = data D ! ravel ?sh (?m[?d := j]) * ?c k"
        by (rule entry)
    qed
    also have "\<dots> = map (\<lambda>x. x * ?c k) (fibre D ?d k)"
      using False sh by (simp add: fibre_def comp_def)
    finally show ?thesis .
  qed
qed

lemma norm_of_normalized:
  assumes sh: "shape D = shape P" and wf: "wf_tensor D"
    and r: "normalize_direction D P = Inr (finite_tensor D')"
    and k: "k < prod_list ((shape P)[norm_dimensions P := 1])"
  shows "vector_norm (fibre D' (norm_dimensions P) k) =
           vector_norm (fibre P (norm_dimensions P) k) * vector_norm (fibre D (norm_dimensions P) k)
             / (vector_norm (fibre D (norm_dimensions P) k) + 1 / 10 ^ 10)"
proof -
  have "0 \<le> vector_norm (fibre P (norm_dimensions P) k)
              / (vector_norm (fibre D (norm_dimensions P) k) + 1 / 10 ^ 10)"
    by (intro divide_nonneg_nonneg add_nonneg_nonneg vector_norm_nonneg) simp_all
  then have a: "\<bar>vector_norm (fibre P (norm_dimensions P) k)
              / (vector_norm (fibre D (norm_dimensions P) k) + 1 / 10 ^ 10)\<bar>
          = vector_norm (fibre P (norm_dimensions P) k)
              / (vector_norm (fibre D (norm_dimensions P) k) + 1 / 10 ^ 10)"
    by (rule abs_of_nonneg)
  show ?thesis
    unfolding fibre_of_normalized [OF assms] vector_norm_scaled a by simp
qed

lemma fibre_vector:
  assumes "shape t = [n]" and "wf_tensor t"
  shows "fibre t 0 0 = data t"
proof -
  from assms have "length (data t) = n" by (simp add: wf_tensor_def)
  then have "map (\<lambda>j. data t ! j) [0..<n] = data t" by (auto intro: map_nth)
  then show ?thesis using assms(1) by (simp add: fibre_def)
qed

lemma fibre_row:
  assumes "shape t = [r, c]" and "wf_tensor t" and "i < r"
  shows "fibre t 1 i = take c (drop (i * c) (data t))"
proof -
  from assms have len: "length (data t) = r * c" by (simp add: wf_tensor_def)
  have "i * c + c \<le> r * c"
  proof -
    have "Suc i * c \<le> r * c" using assms(3) by (intro mult_le_mono1) simp
    then show ?thesis by simp
  qed
  with len have le: "i * c + c \<le> length (data t)" by simp
  have "map (\<lambda>j. data t ! (i * c + j)) [0..<c] = take c (drop (i * c) (data t))"
    using le by (intro nth_equalityI) (auto simp: min_def)
  then show ?thesis using assms(1) by (simp add: fibre_def)
qed


lemma normalized_shape:
  assumes "shape D = shape P" and "normalize_direction D P = Inr (finite_tensor D')"
  shows "shape D' = shape P" and "length (data D') = prod_list (shape P)"
  using assms(2) normalize_direction_returns [OF assms(1)]
  by (auto dest: finite_tensor_inject)

lemma zero_direction_unchanged:
  assumes sh: "shape D = shape P" and wf: "wf_tensor D"
    and r: "normalize_direction D P = Inr (finite_tensor D')" and z: "\<forall>x\<in>set (data D). x = 0"
  shows "D' = D"
proof -
  have len: "length (data D) = prod_list (shape P)"
    using wf sh by (simp add: wf_tensor_def)
  have eq: "map (\<lambda>k. data D ! k * c k) [0..<prod_list (shape P)] = data D"
    for c :: "nat \<Rightarrow> real"
    using z len by (intro nth_equalityI) simp_all
  from r have "Inr (finite_tensor D') = normalize_direction D P" by simp
  also note normalize_direction_returns [OF sh]
  finally have "finite_tensor D' = finite_tensor \<lparr>shape = shape P, data = data D\<rparr>"
    by (simp only: eq sum.inject)
  then have "D' = \<lparr>shape = shape P, data = data D\<rparr>"
    by (rule finite_tensor_inject)
  then show ?thesis using sh by simp
qed

lemma denominator_guarded:
  assumes "norm_keepdim D d = Inr nd"
  shows "\<forall>x\<in>set (data (add_scalar nd (1 / 10 ^ 10))). 1 / 10 ^ 10 \<le> x"
proof -
  from assms have "\<forall>y\<in>set (data nd). 0 \<le> y"
    by (auto simp: norm_keepdim_def vector_norm_nonneg split: if_splits)
  then show ?thesis by (auto simp: add_scalar_def)
qed


text \<open>
  C2, as amended. For a direction \<open>D\<close> and parameters \<open>P\<close> of the same shape, with one or
  two dimensions, \<^verbatim>\<open>normalize_direction\<close> returns, and afterwards every slice of the
  direction over which the norm is taken (the whole vector for one dimension, each row,
  that is each output unit, for two) has the norm
  \<open>\<parallel>P\<^sub>s\<parallel> \<cdot> \<parallel>D\<^sub>s\<parallel> / (\<parallel>D\<^sub>s\<parallel> + 10\<^sup>-\<^sup>1\<^sup>0)\<close> of the slices before the call. This is the
  norm of the slice of \<open>P\<close> reduced by the factor \<open>10\<^sup>-\<^sup>1\<^sup>0 / (\<parallel>D\<^sub>s\<parallel> + 10\<^sup>-\<^sup>1\<^sup>0)\<close>: close to it
  only when the norm of the slice of \<open>D\<close> is large against \<open>10\<^sup>-\<^sup>1\<^sup>0\<close>, and \<open>0\<close> when
  the slice of \<open>D\<close> is zero.
\<close>

theorem normalize_direction_slice_norms:
  assumes "wf_tensor D" and "wf_tensor P" and "shape D = shape P"
  shows "\<exists>D'. normalize_direction D P = Inr (finite_tensor D') \<and> shape D' = shape D \<and> wf_tensor D'
      \<and> (\<forall>n. shape P = [n] \<longrightarrow>
            vector_norm (data D')
              = vector_norm (data P) * vector_norm (data D)
                  / (vector_norm (data D) + 1 / 10 ^ 10))
      \<and> (\<forall>r c i. shape P = [r, c] \<and> i < r \<longrightarrow>
            vector_norm (take c (drop (i * c) (data D')))
              = vector_norm (take c (drop (i * c) (data P)))
                  * vector_norm (take c (drop (i * c) (data D)))
                  / (vector_norm (take c (drop (i * c) (data D))) + 1 / 10 ^ 10))"
proof -
  note wfD = assms(1) and wfP = assms(2) and sh = assms(3)
  from normalize_direction_returns [OF sh]
  obtain D' where r: "normalize_direction D P = Inr (finite_tensor D')" by blast
  have shp: "shape D' = shape P" and len: "length (data D') = prod_list (shape P)"
    using normalized_shape [OF sh r] by simp_all
  then have wf': "wf_tensor D'" by (simp add: wf_tensor_def)
  have one: "vector_norm (data D')
              = vector_norm (data P) * vector_norm (data D)
                  / (vector_norm (data D) + 1 / 10 ^ 10)"
    if n: "shape P = [n]" for n
  proof -
    have d: "norm_dimensions P = 0" by (simp add: norm_dimensions_def n)
    have k: "0 < prod_list ((shape P)[norm_dimensions P := 1])" by (simp add: d n)
    have f: "fibre D' 0 0 = data D'" "fibre P 0 0 = data P" "fibre D 0 0 = data D"
      using n shp sh wf' wfP wfD by (simp_all add: fibre_vector)
    from norm_of_normalized [OF sh wfD r k] show ?thesis
      unfolding d f .
  qed
  have two: "vector_norm (take c (drop (i * c) (data D')))
              = vector_norm (take c (drop (i * c) (data P)))
                  * vector_norm (take c (drop (i * c) (data D)))
                  / (vector_norm (take c (drop (i * c) (data D))) + 1 / 10 ^ 10)"
    if rc: "shape P = [r, c]" and i: "i < r" for r c i
  proof -
    have d: "norm_dimensions P = 1" by (simp add: norm_dimensions_def rc)
    have k: "i < prod_list ((shape P)[norm_dimensions P := 1])" using i by (simp add: d rc)
    have shD': "shape D' = [r, c]" and shD: "shape D = [r, c]"
      using rc shp sh by simp_all
    have f: "fibre D' 1 i = take c (drop (i * c) (data D'))"
      "fibre P 1 i = take c (drop (i * c) (data P))"
      "fibre D 1 i = take c (drop (i * c) (data D))"
      by (rule fibre_row [OF shD' wf' i], rule fibre_row [OF rc wfP i],
          rule fibre_row [OF shD wfD i])
    from norm_of_normalized [OF sh wfD r k] show ?thesis
      unfolding d f .
  qed
  from r shp sh wf' one two show ?thesis by auto
qed

lemma vector_norm_single: "vector_norm [x] = \<bar>x\<bar>"
  by (simp add: vector_norm_def)

lemma vector_norm_examples:
  "vector_norm [3, 4] = 5" "vector_norm [0, 5] = 5" "vector_norm [0, 0] = 0"
  "vector_norm [1, 0] = 1"
  unfolding vector_norm_def by (rule real_sqrt_unique; simp)+

lemma normalize_example:
  "normalize_direction \<lparr>shape = [2, 2], data = [3, 4, 0, 0]\<rparr>
       \<lparr>shape = [2, 2], data = [0, 5, 1, 0]\<rparr>
     = Inr (finite_tensor \<lparr>shape = [2, 2],
            data = [3 * (5 / (5 + 1 / 10 ^ 10)), 4 * (5 / (5 + 1 / 10 ^ 10)), 0, 0]\<rparr>)"
  "normalize_direction \<lparr>shape = [2], data = [3, 4]\<rparr> \<lparr>shape = [2], data = [0, 5]\<rparr>
     = Inr (finite_tensor
         \<lparr>shape = [2], data = [3 * (5 / (5 + 1 / 10 ^ 10)), 4 * (5 / (5 + 1 / 10 ^ 10))]\<rparr>)"
  by (simp_all add: normalize_direction_returns norm_dimensions_def fibre_def upt_conv_Cons
      vector_norm_examples)

theorem normalize_direction_slice_norms_witness:
  "normalize_direction \<lparr>shape = [2, 2], data = [3, 4, 0, 0]\<rparr>
       \<lparr>shape = [2, 2], data = [0, 5, 1, 0]\<rparr>
     = Inr \<lparr>shape = [2, 2],
            data = [Fin (3 * (5 / (5 + 1 / 10 ^ 10))), Fin (4 * (5 / (5 + 1 / 10 ^ 10))),
                    Fin 0, Fin 0]\<rparr>
   \<and> vector_norm [3 * (5 / (5 + 1 / 10 ^ 10)), 4 * (5 / (5 + 1 / 10 ^ 10))]
       = 5 * 5 / (5 + 1 / 10 ^ 10)
   \<and> normalize_direction \<lparr>shape = [2], data = [3, 4]\<rparr> \<lparr>shape = [2], data = [0, 5]\<rparr>
     = Inr \<lparr>shape = [2], data = [Fin (3 * (5 / (5 + 1 / 10 ^ 10))),
                                     Fin (4 * (5 / (5 + 1 / 10 ^ 10)))]\<rparr>"
proof -
  let ?D = "\<lparr>shape = [2, 2], data = [3, 4, 0, 0 :: real]\<rparr>"
  let ?P = "\<lparr>shape = [2, 2], data = [0, 5, 1, 0 :: real]\<rparr>"
  have wf: "wf_tensor ?D" "wf_tensor ?P" "shape ?D = shape ?P"
    by (simp_all add: wf_tensor_def)
  from normalize_direction_slice_norms [OF wf]
  obtain D' where r: "normalize_direction ?D ?P = Inr (finite_tensor D')"
    and rows: "\<forall>r c i. shape ?P = [r, c] \<and> i < r \<longrightarrow>
            vector_norm (take c (drop (i * c) (data D')))
              = vector_norm (take c (drop (i * c) (data ?P)))
                  * vector_norm (take c (drop (i * c) (data ?D)))
                  / (vector_norm (take c (drop (i * c) (data ?D))) + 1 / 10 ^ 10)"
    by blast
  from r have D': "D' = \<lparr>shape = [2, 2],
            data = [3 * (5 / (5 + 1 / 10 ^ 10)), 4 * (5 / (5 + 1 / 10 ^ 10)), 0, 0]\<rparr>"
    by (auto simp: normalize_example dest: finite_tensor_inject)
  from rows [rule_format, of 2 2 0]
  have "vector_norm [3 * (5 / (5 + 1 / 10 ^ 10)), 4 * (5 / (5 + 1 / 10 ^ 10))]
       = 5 * 5 / (5 + 1 / 10 ^ 10)"
    by (simp add: D' vector_norm_examples)
  with normalize_example show ?thesis by (simp add: finite_tensor_def)
qed

text \<open>
  A direction of norm zero keeps the norm zero whatever the norm of the parameters, and
  the direction \<open>[10\<^sup>-\<^sup>1\<^sup>0]\<close> against the parameters \<open>[1]\<close> ends with the norm \<open>1 / 2\<close>:
  neither is the norm \<open>1\<close> of the parameters up to \<open>10\<^sup>-\<^sup>1\<^sup>0\<close>.
\<close>

theorem normalize_direction_small_direction_counterexample:
  "normalize_direction \<lparr>shape = [1], data = [0]\<rparr> \<lparr>shape = [1], data = [1]\<rparr>
     = Inr \<lparr>shape = [1], data = [Fin 0]\<rparr>
   \<and> normalize_direction \<lparr>shape = [1], data = [1 / 10 ^ 10]\<rparr> \<lparr>shape = [1], data = [1]\<rparr>
     = Inr \<lparr>shape = [1], data = [Fin (1 / 2)]\<rparr>
   \<and> vector_norm [0] = 0 \<and> vector_norm [1 / 2] = 1 / 2 \<and> vector_norm [1] = 1"
  by (simp add: normalize_direction_returns norm_dimensions_def fibre_def upt_conv_Cons
      vector_norm_single finite_tensor_def)


text \<open>
  C8. Every denominator of the division is a norm plus \<open>10\<^sup>-\<^sup>1\<^sup>0\<close>, so at least
  \<open>10\<^sup>-\<^sup>1\<^sup>0\<close> and never zero, whatever the direction. For a direction of the shape of
  the parameters \<^verbatim>\<open>normalize_direction\<close> raises nothing: it returns, every element of
  the result is a finite number (no infinity or not-a-number comes out of the division),
  and a direction that is zero everywhere is returned unchanged.
\<close>

theorem normalize_direction_never_raises:
  "(\<forall>d nd. norm_keepdim D d = Inr nd \<longrightarrow>
       (\<forall>x\<in>set (data (add_scalar nd (1 / 10 ^ 10))). 1 / 10 ^ 10 \<le> x))
   \<and> (shape D = shape P \<longrightarrow>
       (\<exists>D' nd. normalize_direction D P = Inr (finite_tensor D') \<and> shape D' = shape D
          \<and> norm_keepdim D (norm_dimensions P) = Inr nd
          \<and> (wf_tensor D \<and> (\<forall>x\<in>set (data D). x = 0) \<longrightarrow> D' = D)))"
proof (intro conjI allI impI)
  fix d nd assume "norm_keepdim D d = Inr nd"
  then show "\<forall>x\<in>set (data (add_scalar nd (1 / 10 ^ 10))). 1 / 10 ^ 10 \<le> x"
    by (rule denominator_guarded)
next
  assume sh: "shape D = shape P"
  from normalize_direction_returns [OF sh]
  obtain D' where r: "normalize_direction D P = Inr (finite_tensor D')" by blast
  from norm_keepdim_returns [OF sh]
  obtain nd where nd: "norm_keepdim D (norm_dimensions P) = Inr nd" by blast
  have "shape D' = shape D" using normalized_shape(1) [OF sh r] sh by simp
  moreover have "wf_tensor D \<and> (\<forall>x\<in>set (data D). x = 0) \<longrightarrow> D' = D"
    using zero_direction_unchanged [OF sh _ r] by blast
  ultimately show "\<exists>D' nd. normalize_direction D P = Inr (finite_tensor D') \<and> shape D' = shape D
          \<and> norm_keepdim D (norm_dimensions P) = Inr nd
          \<and> (wf_tensor D \<and> (\<forall>x\<in>set (data D). x = 0) \<longrightarrow> D' = D)"
    using r nd by blast
qed


theorem normalize_direction_never_raises_witness:
  "normalize_direction \<lparr>shape = [2], data = [0, 0]\<rparr> \<lparr>shape = [2], data = [3, 4]\<rparr>
     = Inr \<lparr>shape = [2], data = [Fin 0, Fin 0]\<rparr>
   \<and> norm_keepdim \<lparr>shape = [2], data = [0, 0]\<rparr> 0 = Inr \<lparr>shape = [1], data = [0]\<rparr>
   \<and> data (add_scalar \<lparr>shape = [1], data = [0]\<rparr> (1 / 10 ^ 10)) = [1 / 10 ^ 10]"
proof -
  let ?D = "\<lparr>shape = [2], data = [0, 0 :: real]\<rparr>"
  let ?P = "\<lparr>shape = [2], data = [3, 4 :: real]\<rparr>"
  from normalize_direction_never_raises [of ?D ?P]
  obtain D' where r: "normalize_direction ?D ?P = Inr (finite_tensor D')"
    and z: "wf_tensor ?D \<and> (\<forall>x\<in>set (data ?D). x = 0) \<longrightarrow> D' = ?D"
    by auto
  from z have "D' = ?D" by (simp add: wf_tensor_def)
  with r have a: "normalize_direction ?D ?P = Inr \<lparr>shape = [2], data = [Fin 0, Fin 0]\<rparr>"
    by (simp add: finite_tensor_def)
  have b: "norm_keepdim ?D 0 = Inr \<lparr>shape = [1], data = [0]\<rparr>"
    by (simp add: norm_keepdim_def fibre_def upt_conv_Cons vector_norm_examples)
  have c: "data (add_scalar \<lparr>shape = [1], data = [0]\<rparr> (1 / 10 ^ 10)) = [1 / 10 ^ 10]"
    by (simp add: add_scalar_def)
  from a b c show ?thesis by (intro conjI)
qed

end
